theory Spec2Isabelle
  imports
    Main
    "HOL-Library.Char_ord"
    "HOL-Library.List_Lexorder"
    "HOL-Library.Product_Lexorder"
    "HOL-Library.Multiset"
begin

section \<open>Go strings\<close>

text \<open>
  A Go string is a sequence of bytes; \<^typ>\<open>string\<close> is a list of 8-bit characters.
  \<open>sort.Strings\<close> orders strings bytewise, which is the lexicographic order on
  \<^typ>\<open>char list\<close>. The functions of package \<open>strings\<close> that the program calls are
  written out here.
\<close>

definition newline :: string where
  "newline = [CHR 0x0A]"

definition dquote :: string where
  "dquote = [CHR 0x22]"

definition squote :: string where
  "squote = [CHR 0x27]"

definition HasPrefix :: "string \<Rightarrow> string \<Rightarrow> bool" where
  "HasPrefix s prefix = (take (length prefix) s = prefix)"

definition HasSuffix :: "string \<Rightarrow> string \<Rightarrow> bool" where
  "HasSuffix s suffix = (length suffix \<le> length s \<and> drop (length s - length suffix) s = suffix)"

text \<open>\<open>strings.Index\<close>: the first position of \<open>sub\<close>, \<open>None\<close> for Go's \<open>-1\<close>.\<close>

fun Index :: "string \<Rightarrow> string \<Rightarrow> nat option" where
  "Index [] sub = (if sub = [] then Some 0 else None)"
| "Index (c # cs) sub =
     (if HasPrefix (c # cs) sub then Some 0 else map_option Suc (Index cs sub))"

text \<open>\<open>strings.LastIndex\<close>: the last position of \<open>sub\<close>, \<open>None\<close> for Go's \<open>-1\<close>.\<close>

fun LastIndex :: "string \<Rightarrow> string \<Rightarrow> nat option" where
  "LastIndex [] sub = (if sub = [] then Some 0 else None)"
| "LastIndex (c # cs) sub =
     (case LastIndex cs sub of
        Some i \<Rightarrow> Some (Suc i)
      | None \<Rightarrow> if HasPrefix (c # cs) sub then Some 0 else None)"

definition Contains :: "string \<Rightarrow> string \<Rightarrow> bool" where
  "Contains s sub = (Index s sub \<noteq> None)"

text \<open>
  \<open>strings.Count\<close>, \<open>strings.Split\<close> and \<open>strings.SplitN\<close> are only called with the
  one-byte separators \<open>"."\<close> and \<open>"/"\<close>; the separator is the byte.
\<close>

definition Count :: "string \<Rightarrow> char \<Rightarrow> nat" where
  "Count s sep = length (filter (\<lambda>c. c = sep) s)"

fun Split :: "string \<Rightarrow> char \<Rightarrow> string list" where
  "Split [] sep = [[]]"
| "Split (c # cs) sep =
     (if c = sep then [] # Split cs sep
      else (case Split cs sep of x # xs \<Rightarrow> (c # x) # xs | [] \<Rightarrow> [[c]]))"

text \<open>\<open>strings.SplitN(s, sep, 2)\<close>: cut at the first separator, if there is one.\<close>

definition SplitN2 :: "string \<Rightarrow> char \<Rightarrow> string list" where
  "SplitN2 s sep =
     (if sep \<in> set s
      then [takeWhile (\<lambda>c. c \<noteq> sep) s, tl (dropWhile (\<lambda>c. c \<noteq> sep) s)]
      else [s])"

fun Join :: "string list \<Rightarrow> string \<Rightarrow> string" where
  "Join [] sep = []"
| "Join [x] sep = x"
| "Join (x # y # ys) sep = x @ sep @ Join (y # ys) sep"

text \<open>\<open>strings.Replace(s, old, new, 1)\<close>: the first occurrence only.\<close>

definition Replace1 :: "string \<Rightarrow> string \<Rightarrow> string \<Rightarrow> string" where
  "Replace1 s old new =
     (case Index s old of
        None \<Rightarrow> s
      | Some i \<Rightarrow> take i s @ new @ drop (i + length old) s)"

text \<open>\<open>strings.Trim(s, cutset)\<close> for a cutset of one-byte characters.\<close>

definition Trim :: "string \<Rightarrow> string \<Rightarrow> string" where
  "Trim s cutset =
     rev (dropWhile (\<lambda>c. c \<in> set cutset) (rev (dropWhile (\<lambda>c. c \<in> set cutset) s)))"

definition Repeat :: "string \<Rightarrow> nat \<Rightarrow> string" where
  "Repeat s n = concat (replicate n s)"

section \<open>Syntax trees\<close>

text \<open>
  The type expressions of \<open>go/ast\<close> that \<open>getFieldType\<close> switches on. A field of a
  field list is a pair of its names (\<open>[]\<close> for Go's \<open>nil\<close>: an embedded field or an
  unnamed parameter) and its type. The parser builds a selector in type position only
  as \<open>identifier.identifier\<close>, so \<open>SelectorExpr\<close> carries the two names.
  \<open>OtherExpr\<close> stands for every expression shape the switch has no case for.
\<close>

datatype expr =
    Ident string
  | ArrayType expr
  | SelectorExpr string string
  | MapType expr expr
  | StarExpr expr
  | ChanType expr
  | StructType "(string list \<times> expr) list"
  | InterfaceType "(string list \<times> expr) list"
  | FuncType "(string list \<times> expr) list" "(string list \<times> expr) list"
  | Ellipsis expr
  | OtherExpr

type_synonym astField = "string list \<times> expr"

section \<open>field.go\<close>

definition packageConstant :: string where
  "packageConstant = ''{packageName}''"

record Field =
  Field_Name :: string
  Field_Type :: string
  Field_FullType :: string

record Function =
  Function_Name :: string
  Function_Parameters :: "Field list"
  Function_ReturnValues :: "string list"

definition globalPrimitives :: "string list" where
  "globalPrimitives =
     [''bool'', ''string'', ''int'', ''int8'', ''int16'', ''int32'', ''int64'',
      ''uint'', ''uint8'', ''uint16'', ''uint32'', ''uint64'', ''uintptr'',
      ''byte'', ''rune'', ''float32'', ''float64'', ''complex64'', ''complex128'',
      ''error'',
      ''*bool'', ''*string'', ''*int'', ''*int8'', ''*int16'', ''*int32'', ''*int64'',
      ''*uint'', ''*uint8'', ''*uint16'', ''*uint32'', ''*uint64'', ''*uintptr'',
      ''*byte'', ''*rune'', ''*float32'', ''*float64'', ''*complex64'', ''*complex128'',
      ''*error'']"

definition isPrimitiveString :: "string \<Rightarrow> bool" where
  "isPrimitiveString t = (t \<in> set globalPrimitives)"

definition replacePackageConstant :: "string \<Rightarrow> string \<Rightarrow> string" where
  "replacePackageConstant field packageName = Replace1 field packageConstant packageName"

text \<open>
  Modelled from the spec: \<open>getFunction\<close> (function.go is not among the sources). A method
  is its name, the ordered (parameter name, canonical type) pairs and the ordered return
  canonical types, built from the declaration's parameter and result lists with the type
  resolver; an unnamed parameter has the empty name. The placeholder of the namespace is
  replaced by the empty string in the displayed type and by the namespace in the full type.
  \<open>newFunction\<close> is \<open>getFunction\<close> after the types of the parameters and results have
  been resolved.
\<close>

definition newParameters :: "string list \<times> string \<Rightarrow> string \<Rightarrow> Field list" where
  "newParameters pa packageName =
     (let mk = (\<lambda>n. \<lparr> Field_Name = n,
                      Field_Type = replacePackageConstant (snd pa) [],
                      Field_FullType = replacePackageConstant (snd pa) packageName \<rparr>)
      in if fst pa = [] then [mk []] else map mk (fst pa))"

definition newFunction ::
  "string \<Rightarrow> (string list \<times> string) list \<Rightarrow> string list \<Rightarrow> string \<Rightarrow> Function" where
  "newFunction name params results packageName =
     \<lparr> Function_Name = name,
       Function_Parameters = concat (map (\<lambda>pa. newParameters pa packageName) params),
       Function_ReturnValues = map (\<lambda>theType. replacePackageConstant theType []) results \<rparr>"

text \<open>
  \<open>getFieldType\<close> with the functions it dispatches to (\<open>getIdent\<close>, \<open>getArrayType\<close>,
  \<open>getSelectorExp\<close>, \<open>getMapType\<close>, \<open>getStarExp\<close>, \<open>getChanType\<close>, \<open>getStructType\<close>,
  \<open>getInterfaceType\<close>, \<open>getFuncType\<close>, \<open>getEllipsis\<close>), one equation per case of the
  type switch. The result is the display string and the list of dependencies.
\<close>

function (sequential) getFieldType ::
  "expr \<Rightarrow> (string \<rightharpoonup> string) \<Rightarrow> string \<Rightarrow> string \<times> string list" where
  "getFieldType (Ident name) aliases packageName =
     (if isPrimitiveString name then (name, [])
      else (packageConstant @ ''.'' @ name, [packageConstant @ ''.'' @ name]))"
| "getFieldType (ArrayType elt) aliases packageName =
     (case getFieldType elt aliases packageName of
        (t, fundamentalTypes) \<Rightarrow> (''[]'' @ t, fundamentalTypes))"
| "getFieldType (SelectorExpr x sel) aliases packageName =
     (let pkg = (case aliases x of Some realPackageName \<Rightarrow> realPackageName | None \<Rightarrow> x);
          t = pkg @ ''.'' @ sel
      in (t, [t]))"
| "getFieldType (MapType key val) aliases packageName =
     (case getFieldType key aliases packageName of (t1, f1) \<Rightarrow>
      case getFieldType val aliases packageName of (t2, f2) \<Rightarrow>
        (''<font color=blue>map</font>['' @ t1 @ '']'' @ t2, f1 @ f2))"
| "getFieldType (StarExpr x) aliases packageName =
     (case getFieldType x aliases packageName of (t, f) \<Rightarrow> (''*'' @ t, f))"
| "getFieldType (ChanType val) aliases packageName =
     (case getFieldType val aliases packageName of
        (t, f) \<Rightarrow> (''<font color=blue>chan</font> '' @ t, f))"
| "getFieldType (StructType fieldList) aliases packageName =
     (''<font color=blue>struct</font>{''
        @ Join (map (\<lambda>field. fst (getFieldType (snd field) aliases packageName)) fieldList)
            '', ''
        @ ''}'', [])"
| "getFieldType (InterfaceType methods) aliases packageName =
     (''<font color=blue>interface</font>{''
        @ Join (map (\<lambda>field.
                   (case fst field of [] \<Rightarrow> [] | methodName # _ \<Rightarrow> methodName) @ '' ''
                     @ fst (getFieldType (snd field) aliases packageName)) methods)
            ''; ''
        @ ''}'', [])"
| "getFieldType (FuncType params results) aliases packageName =
     (let function = newFunction []
            (map (\<lambda>pa. (fst pa, fst (getFieldType (snd pa) aliases packageName))) params)
            (map (\<lambda>pa. fst (getFieldType (snd pa) aliases packageName)) results)
            packageName;
          paramList = map Field_FullType (Function_Parameters function);
          returnList = Function_ReturnValues function;
          returns = (if length returnList > 1 then ''('' @ Join returnList '', '' @ '')''
                     else Join returnList [])
      in (''<font color=blue>func</font>('' @ Join paramList '', '' @ '') '' @ returns, []))"
| "getFieldType (Ellipsis elt) aliases packageName =
     (case getFieldType elt aliases packageName of (t, _) \<Rightarrow> (''...'' @ t, []))"
| "getFieldType OtherExpr aliases packageName = ([], [])"
  by pat_completeness auto

lemma size_field_type:
  "x \<in> set xs \<Longrightarrow> size (snd x) < Suc (size_list (size_prod (\<lambda>_. 0) size) xs)"
  by (induction xs) (auto simp: less_Suc_eq_le)

lemma size_field_type_left:
  "x \<in> set xs \<Longrightarrow> size (snd x) < Suc (size_list (size_prod (\<lambda>_. 0) size) xs + n)"
  using size_field_type [of x xs] by simp

lemma size_field_type_right:
  "x \<in> set xs \<Longrightarrow> size (snd x) < Suc (n + size_list (size_prod (\<lambda>_. 0) size) xs)"
  using size_field_type [of x xs] by simp

termination getFieldType
  by (relation "measure (\<lambda>(e, a, p). size e)")
     (auto simp: size_field_type size_field_type_left size_field_type_right)

definition getFunction ::
  "astField list \<Rightarrow> astField list \<Rightarrow> string \<Rightarrow> (string \<rightharpoonup> string) \<Rightarrow> string \<Rightarrow> Function" where
  "getFunction params results name aliases packageName =
     newFunction name
       (map (\<lambda>pa. (fst pa, fst (getFieldType (snd pa) aliases packageName))) params)
       (map (\<lambda>pa. fst (getFieldType (snd pa) aliases packageName)) results)
       packageName"

section \<open>Library functions of Go the program calls\<close>

text \<open>
  \<open>path.Base\<close>: the last element of a slash-separated path, after trailing slashes
  have been removed; \<open>"."\<close> for the empty path and \<open>"/"\<close> for a path of slashes only.
\<close>

definition pathBase :: "string \<Rightarrow> string" where
  "pathBase path =
     (if path = [] then ''.''
      else let stripped = rev (dropWhile (\<lambda>c. c = CHR ''/'') (rev path));
               base = rev (takeWhile (\<lambda>c. c \<noteq> CHR ''/'') (rev stripped))
           in if base = [] then ''/'' else base)"

text \<open>
  \<open>unicode.IsLower(rune(b))\<close> for a byte \<open>b\<close>: the conversion reads the byte as a code
  point of Latin-1, whose lower-case letters are \<open>a\<close> to \<open>z\<close>, U+00B5, U+00DF to U+00F6 and
  U+00F8 to U+00FF.
\<close>

definition IsLower :: "char \<Rightarrow> bool" where
  "IsLower c =
     (let n = (of_char c :: nat)
      in (97 \<le> n \<and> n \<le> 122) \<or> n = 181 \<or> (223 \<le> n \<and> n \<le> 246) \<or> (248 \<le> n \<and> n \<le> 255))"

text \<open>
  \<open>strings.TrimSpace\<close> removes the leading and trailing code points with Unicode's
  White_Space property. \<open>unicodeSpaces\<close> lists their UTF-8 encodings: U+0009 to U+000D,
  U+0020, U+0085, U+00A0, U+1680, U+2000 to U+200A, U+2028, U+2029, U+202F, U+205F and
  U+3000. No encoding is a prefix or a suffix of another.
\<close>

definition unicodeSpaces :: "string list" where
  "unicodeSpaces =
     [[CHR 0x09], [CHR 0x0A], [CHR 0x0B], [CHR 0x0C], [CHR 0x0D], [CHR 0x20],
      [CHR 0xC2, CHR 0x85], [CHR 0xC2, CHR 0xA0],
      [CHR 0xE1, CHR 0x9A, CHR 0x80],
      [CHR 0xE2, CHR 0x80, CHR 0x80], [CHR 0xE2, CHR 0x80, CHR 0x81],
      [CHR 0xE2, CHR 0x80, CHR 0x82], [CHR 0xE2, CHR 0x80, CHR 0x83],
      [CHR 0xE2, CHR 0x80, CHR 0x84], [CHR 0xE2, CHR 0x80, CHR 0x85],
      [CHR 0xE2, CHR 0x80, CHR 0x86], [CHR 0xE2, CHR 0x80, CHR 0x87],
      [CHR 0xE2, CHR 0x80, CHR 0x88], [CHR 0xE2, CHR 0x80, CHR 0x89],
      [CHR 0xE2, CHR 0x80, CHR 0x8A],
      [CHR 0xE2, CHR 0x80, CHR 0xA8], [CHR 0xE2, CHR 0x80, CHR 0xA9],
      [CHR 0xE2, CHR 0x80, CHR 0xAF],
      [CHR 0xE2, CHR 0x81, CHR 0x9F],
      [CHR 0xE3, CHR 0x80, CHR 0x80]]"

text \<open>
  \<open>dropLeading pats n s\<close> removes leading occurrences of the patterns from \<open>s\<close>, at most
  \<open>n\<close> of them; with \<open>n = length s\<close> and non-empty patterns it removes them all.
\<close>

fun dropLeading :: "string list \<Rightarrow> nat \<Rightarrow> string \<Rightarrow> string" where
  "dropLeading pats 0 s = s"
| "dropLeading pats (Suc n) s =
     (case find (\<lambda>pat. HasPrefix s pat) pats of
        None \<Rightarrow> s
      | Some pat \<Rightarrow> dropLeading pats n (drop (length pat) s))"

definition TrimSpace :: "string \<Rightarrow> string" where
  "TrimSpace s =
     (let left = dropLeading unicodeSpaces (length s) s
      in rev (dropLeading (map rev unicodeSpaces) (length left) (rev left)))"

text \<open>
  \<open>regexp.ReplaceAllString\<close> with the pattern \<open>[^a-zA-Z0-9]+\<close> and the empty replacement
  keeps exactly the bytes that are ASCII letters or digits.
\<close>

definition isAlphaNumeric :: "char \<Rightarrow> bool" where
  "isAlphaNumeric c =
     (let n = (of_char c :: nat)
      in (97 \<le> n \<and> n \<le> 122) \<or> (65 \<le> n \<and> n \<le> 90) \<or> (48 \<le> n \<and> n \<le> 57))"

section \<open>class\_parser.go: the data model\<close>

text \<open>
  A call either returns or panics. A Go \<open>error\<close> is a value that is returned: \<open>None\<close> is
  \<open>nil\<close>.
\<close>

datatype 'a result = Ok 'a | Panic

datatype goError = InvalidRenderingOption int | ExternalError string

type_synonym error = "goError option"

definition tab :: string where
  "tab = ''    ''"

definition BuiltinPackageName :: string where
  "BuiltinPackageName = ''builtin''"

text \<open>\<open>LineStringBuilder.WriteLineWithDepth\<close>; the builder is the text written so far.\<close>

definition WriteLineWithDepth :: "nat \<Rightarrow> string \<Rightarrow> string \<Rightarrow> string" where
  "WriteLineWithDepth depth str lsb = lsb @ Repeat tab depth @ str @ newline"

record RenderingOptions =
  Options_Title :: string
  Options_Notes :: string
  Options_ModuleBase :: string
  Options_Aggregations :: bool
  Options_Fields :: bool
  Options_Methods :: bool
  Options_Compositions :: bool
  Options_Implementations :: bool
  Options_Aliases :: bool
  Options_ConnectionLabels :: bool
  Options_AggregatePrivateMembers :: bool
  Options_PrivateMembers :: bool

text \<open>The keys of the options map: \<open>RenderingOption\<close> is an \<open>int\<close>, the constants count from 0.\<close>

definition RenderAggregations :: int where "RenderAggregations = 0"
definition RenderCompositions :: int where "RenderCompositions = 1"
definition RenderImplementations :: int where "RenderImplementations = 2"
definition RenderAliases :: int where "RenderAliases = 3"
definition RenderFields :: int where "RenderFields = 4"
definition RenderMethods :: int where "RenderMethods = 5"
definition RenderConnectionLabels :: int where "RenderConnectionLabels = 6"
definition RenderTitle :: int where "RenderTitle = 7"
definition RenderNotes :: int where "RenderNotes = 8"
definition AggregatePrivateMembers :: int where "AggregatePrivateMembers = 9"
definition RenderPrivateMembers :: int where "RenderPrivateMembers = 10"

text \<open>
  A value of the empty interface, as far as \<open>SetRenderingOptions\<close> tells values apart:
  a \<open>bool\<close>, a \<open>string\<close>, or anything else (\<open>nil\<close> included).
\<close>

datatype goValue = BoolValue bool | StringValue string | OtherValue

text \<open>
  The structures of the registry. The type declarations of \<open>Struct\<close> and \<open>Alias\<close> are
  not among the sources; their fields are the ones \<open>getOrCreateStruct\<close>, \<open>processSpec\<close>
  and the renderer read and write. A \<open>map[string]struct{}\<close> is a set of strings.
\<close>

record Struct =
  Struct_PackageName :: string
  Struct_Functions :: "Function list"
  Struct_Fields :: "Field list"
  Struct_Type :: string
  Struct_Composition :: "string set"
  Struct_Extends :: "string set"
  Struct_Aggregations :: "string set"
  Struct_PrivateAggregations :: "string set"

record Alias =
  Alias_Name :: string
  Alias_PackageName :: string
  Alias_AliasOf :: string

text \<open>
  The registry maps a package name and a structure name to the structure. The program
  holds structures by pointer, and every pointer to a structure is stored in the registry
  under one such pair, so a pointer is the pair and a write through it updates the
  registry.
\<close>

record ClassParser =
  Parser_RenderingOptions :: RenderingOptions
  Structure :: "string \<rightharpoonup> (string \<rightharpoonup> Struct)"
  CurrentPackageName :: string
  AllInterfaces :: "string set"
  AllStructs :: "string set"
  AllImports :: "string \<rightharpoonup> string"
  AllAliases :: "string \<rightharpoonup> Alias"
  AllRenamedStructs :: "string \<rightharpoonup> (string \<rightharpoonup> string)"

type_synonym structPtr = "string \<times> string"

definition deref :: "ClassParser \<Rightarrow> structPtr \<Rightarrow> Struct option" where
  "deref p ptr = (case Structure p (fst ptr) of None \<Rightarrow> None | Some pack \<Rightarrow> pack (snd ptr))"

definition store :: "ClassParser \<Rightarrow> structPtr \<Rightarrow> Struct \<Rightarrow> ClassParser" where
  "store p ptr st =
     p\<lparr> Structure := (Structure p)(fst ptr \<mapsto>
          (case Structure p (fst ptr) of None \<Rightarrow> Map.empty | Some pack \<Rightarrow> pack)(snd ptr \<mapsto> st)) \<rparr>"

text \<open>A write through a pointer the registry holds; nothing happens for any other pair.\<close>

definition modify :: "ClassParser \<Rightarrow> structPtr \<Rightarrow> (Struct \<Rightarrow> Struct) \<Rightarrow> ClassParser" where
  "modify p ptr f = (case deref p ptr of None \<Rightarrow> p | Some st \<Rightarrow> store p ptr (f st))"

text \<open>
  Modelled from the spec: \<open>IsPrimitiveString\<close> (its declaration is not among the
  sources). It is the test of primitiveness of a type name, the membership in the table
  of the built-in primitive names that \<open>isPrimitiveString\<close> of field.go tests.
\<close>

definition IsPrimitiveString :: "string \<Rightarrow> bool" where
  "IsPrimitiveString t = isPrimitiveString t"

definition GetPackageName :: "ClassParser \<Rightarrow> string \<Rightarrow> Struct \<Rightarrow> string" where
  "GetPackageName p t st =
     (if IsPrimitiveString t then BuiltinPackageName else Struct_PackageName st)"

definition newStruct :: "string \<Rightarrow> Struct" where
  "newStruct packageName =
     \<lparr> Struct_PackageName = packageName,
       Struct_Functions = [],
       Struct_Fields = [],
       Struct_Type = [],
       Struct_Composition = {},
       Struct_Extends = {},
       Struct_Aggregations = {},
       Struct_PrivateAggregations = {} \<rparr>"

text \<open>
  \<open>getOrCreateStruct\<close> returns the pointer \<open>(CurrentPackageName, name)\<close>. Where the
  registry has no map for the current package, the lookup finds nothing and the
  assignment into the \<open>nil\<close> map panics.
\<close>

definition getOrCreateStruct :: "ClassParser \<Rightarrow> string \<Rightarrow> (ClassParser \<times> structPtr) result" where
  "getOrCreateStruct p name =
     (case Structure p (CurrentPackageName p) of
        None \<Rightarrow> Panic
      | Some pack \<Rightarrow>
          (case pack name of
             Some result \<Rightarrow> Ok (p, (CurrentPackageName p, name))
           | None \<Rightarrow>
               Ok (store p (CurrentPackageName p, name) (newStruct (CurrentPackageName p)),
                   (CurrentPackageName p, name))))"

text \<open>\<open>getStruct\<close>: the pointer, or \<open>None\<close> for \<open>nil\<close>.\<close>

definition getStruct :: "ClassParser \<Rightarrow> string \<Rightarrow> structPtr option" where
  "getStruct p structName =
     (let split = Split structName CHR ''.'';
          ptr = (Join (butlast split) ''.'', last split)
      in case deref p ptr of None \<Rightarrow> None | Some st \<Rightarrow> Some ptr)"

definition GenerateRenamedStructName :: "string \<Rightarrow> string" where
  "GenerateRenamedStructName currentName = filter isAlphaNumeric currentName"

fun getBasicType :: "expr \<Rightarrow> expr" where
  "getBasicType (ArrayType elt) = getBasicType elt"
| "getBasicType (StarExpr x) = getBasicType x"
| "getBasicType (MapType key val) = getBasicType val"
| "getBasicType (ChanType val) = getBasicType val"
| "getBasicType (Ellipsis elt) = getBasicType elt"
| "getBasicType theType = theType"

text \<open>
  \<open>SetRenderingOptions\<close>. The options map is given as the list of its entries in the order
  the \<open>range\<close> loop visits them, which Go leaves open. A type assertion on a value of
  another type panics. The error is returned with the parser as the entries visited
  before have left it.
\<close>

definition setBool ::
  "ClassParser \<Rightarrow> goValue \<Rightarrow> (bool \<Rightarrow> RenderingOptions \<Rightarrow> RenderingOptions) \<Rightarrow> ClassParser result" where
  "setBool p val upd =
     (case val of
        BoolValue b \<Rightarrow> Ok (p\<lparr> Parser_RenderingOptions := upd b (Parser_RenderingOptions p) \<rparr>)
      | _ \<Rightarrow> Panic)"

definition setString ::
  "ClassParser \<Rightarrow> goValue \<Rightarrow> (string \<Rightarrow> RenderingOptions \<Rightarrow> RenderingOptions) \<Rightarrow> ClassParser result" where
  "setString p val upd =
     (case val of
        StringValue s \<Rightarrow> Ok (p\<lparr> Parser_RenderingOptions := upd s (Parser_RenderingOptions p) \<rparr>)
      | _ \<Rightarrow> Panic)"

definition setOption :: "ClassParser \<Rightarrow> int \<Rightarrow> goValue \<Rightarrow> (ClassParser \<times> error) result" where
  "setOption p option val =
     (let continue = (\<lambda>r. case r of Ok p' \<Rightarrow> Ok (p', None) | Panic \<Rightarrow> Panic)
      in if option = RenderAggregations then
           continue (setBool p val (\<lambda>b ro. ro\<lparr> Options_Aggregations := b \<rparr>))
         else if option = RenderAliases then
           continue (setBool p val (\<lambda>b ro. ro\<lparr> Options_Aliases := b \<rparr>))
         else if option = RenderCompositions then
           continue (setBool p val (\<lambda>b ro. ro\<lparr> Options_Compositions := b \<rparr>))
         else if option = RenderFields then
           continue (setBool p val (\<lambda>b ro. ro\<lparr> Options_Fields := b \<rparr>))
         else if option = RenderImplementations then
           continue (setBool p val (\<lambda>b ro. ro\<lparr> Options_Implementations := b \<rparr>))
         else if option = RenderMethods then
           continue (setBool p val (\<lambda>b ro. ro\<lparr> Options_Methods := b \<rparr>))
         else if option = RenderConnectionLabels then
           continue (setBool p val (\<lambda>b ro. ro\<lparr> Options_ConnectionLabels := b \<rparr>))
         else if option = RenderTitle then
           continue (setString p val (\<lambda>s ro. ro\<lparr> Options_Title := s \<rparr>))
         else if option = RenderNotes then
           continue (setString p val (\<lambda>s ro. ro\<lparr> Options_Notes := s \<rparr>))
         else if option = AggregatePrivateMembers then
           continue (setBool p val (\<lambda>b ro. ro\<lparr> Options_AggregatePrivateMembers := b \<rparr>))
         else if option = RenderPrivateMembers then
           continue (setBool p val (\<lambda>b ro. ro\<lparr> Options_PrivateMembers := b \<rparr>))
         else Ok (p, Some (InvalidRenderingOption option)))"

fun SetRenderingOptions :: "ClassParser \<Rightarrow> (int \<times> goValue) list \<Rightarrow> (ClassParser \<times> error) result" where
  "SetRenderingOptions p [] = Ok (p, None)"
| "SetRenderingOptions p ((option, val) # ro) =
     (case setOption p option val of
        Panic \<Rightarrow> Panic
      | Ok (p', Some err) \<Rightarrow> Ok (p', Some err)
      | Ok (p', None) \<Rightarrow> SetRenderingOptions p' ro)"

section \<open>render.go: the PlantUML renderer\<close>

definition implements :: string where
  "implements = dquote @ ''implements'' @ dquote"

definition extends :: string where
  "extends = dquote @ ''extends'' @ dquote"

definition aggregates :: string where
  "aggregates = dquote @ ''uses'' @ dquote"

definition aliasOf :: string where
  "aliasOf = dquote @ ''alias of'' @ dquote"

definition nodeSep :: string where
  "nodeSep = ''skinparam nodesep 500''"

definition ranskSep :: string where
  "ranskSep = ''skinparam ranksep 1500''"

definition aliasComplexNameComment :: string where
  "aliasComplexNameComment = squote @ ''This class was created so that we can correctly have an alias pointing to this name. Since it contains dots that can break namespaces''"

text \<open>
  \<open>randomcolor.GetRandomColorInHex\<close> draws a colour from a random source. The source is
  the sequence of the colours it will return; a call takes the first and leaves the rest.
\<close>

type_synonym colors = "nat \<Rightarrow> string"

definition GetRandomColorInHex :: "colors \<Rightarrow> string \<times> colors" where
  "GetRandomColorInHex rng = (rng 0, \<lambda>n. rng (Suc n))"

text \<open>
  The keys of a Go map, as a \<open>range\<close> loop collects them. Go leaves the order of the visit
  open; each loop of the renderer sorts the strings it has collected before it writes
  them, so the keys are taken in ascending order here.
\<close>

definition rangeKeys :: "string set \<Rightarrow> string list" where
  "rangeKeys keys = sorted_list_of_set keys"

definition writeLines :: "string list \<Rightarrow> string \<Rightarrow> string" where
  "writeLines ls lsb = foldl (\<lambda>b l. WriteLineWithDepth 0 l b) lsb ls"

text \<open>
  \<open>renderStructFields\<close>: the loop over the fields. \<open>field.Name[0]\<close> panics on an empty
  name.
\<close>

fun renderStructFieldList ::
  "ClassParser \<Rightarrow> Field list \<Rightarrow> string \<Rightarrow> string \<Rightarrow> (string \<times> string) result" where
  "renderStructFieldList p [] privateFields publicFields = Ok (privateFields, publicFields)"
| "renderStructFieldList p (field # rest) privateFields publicFields =
     (if Field_Name field = [] then Panic
      else if IsLower (hd (Field_Name field)) then
        (if \<not> Options_PrivateMembers (Parser_RenderingOptions p)
         then renderStructFieldList p rest privateFields publicFields
         else renderStructFieldList p rest
                (WriteLineWithDepth 2
                   (''-'' @ '' '' @ Field_Name field @ '' '' @ Field_Type field) privateFields)
                publicFields)
      else renderStructFieldList p rest privateFields
             (WriteLineWithDepth 2
                (''+'' @ '' '' @ Field_Name field @ '' '' @ Field_Type field) publicFields))"

definition renderStructFields ::
  "ClassParser \<Rightarrow> Struct \<Rightarrow> string \<Rightarrow> string \<Rightarrow> (string \<times> string) result" where
  "renderStructFields p structure privateFields publicFields =
     renderStructFieldList p (Struct_Fields structure) privateFields publicFields"

definition methodLine :: "string \<Rightarrow> Function \<Rightarrow> string" where
  "methodLine accessModifier method =
     (let parameterList =
            map (\<lambda>pa. Field_Name pa @ '' '' @ Field_Type pa) (Function_Parameters method);
          returnValues =
            (case Function_ReturnValues method of
               [] \<Rightarrow> []
             | [r] \<Rightarrow> r
             | rs \<Rightarrow> ''('' @ Join rs '', '' @ '')'')
      in accessModifier @ '' '' @ Function_Name method @ ''('' @ Join parameterList '', ''
           @ '') '' @ returnValues)"

fun renderStructMethodList ::
  "ClassParser \<Rightarrow> Function list \<Rightarrow> string \<Rightarrow> string \<Rightarrow> (string \<times> string) result" where
  "renderStructMethodList p [] privateMethods publicMethods = Ok (privateMethods, publicMethods)"
| "renderStructMethodList p (method # rest) privateMethods publicMethods =
     (if Function_Name method = [] then Panic
      else if IsLower (hd (Function_Name method)) then
        (if \<not> Options_PrivateMembers (Parser_RenderingOptions p)
         then renderStructMethodList p rest privateMethods publicMethods
         else renderStructMethodList p rest
                (WriteLineWithDepth 2 (methodLine ''-'' method) privateMethods) publicMethods)
      else renderStructMethodList p rest privateMethods
             (WriteLineWithDepth 2 (methodLine ''+'' method) publicMethods))"

definition renderStructMethods ::
  "ClassParser \<Rightarrow> Struct \<Rightarrow> string \<Rightarrow> string \<Rightarrow> (string \<times> string) result" where
  "renderStructMethods p structure privateMethods publicMethods =
     renderStructMethodList p (Struct_Functions structure) privateMethods publicMethods"

definition renderCompositions ::
  "ClassParser \<Rightarrow> Struct \<Rightarrow> string \<Rightarrow> string \<Rightarrow> colors \<Rightarrow> string \<times> colors" where
  "renderCompositions p structure name composition rng =
     (case GetRandomColorInHex rng of (randColor, rng') \<Rightarrow>
        let line = (\<lambda>c.
              let c' = (if \<not> Contains c ''.''
                        then GetPackageName p c structure @ ''.'' @ c else c);
                  composedString =
                    (if Options_ConnectionLabels (Parser_RenderingOptions p) then extends else [])
              in dquote @ c' @ dquote @ '' *-['' @ randColor @ '']- '' @ composedString
                   @ dquote @ Struct_PackageName structure @ ''.'' @ name @ dquote);
            orderedCompositions = sort (map line (rangeKeys (Struct_Composition structure)))
        in (writeLines orderedCompositions composition, rng'))"

definition renderExtends ::
  "ClassParser \<Rightarrow> Struct \<Rightarrow> string \<Rightarrow> string \<Rightarrow> colors \<Rightarrow> string \<times> colors" where
  "renderExtends p structure name extendsBuilder rng =
     (case GetRandomColorInHex rng of (randColor, rng') \<Rightarrow>
        let line = (\<lambda>c.
              let c' = (if \<not> Contains c ''.''
                        then Struct_PackageName structure @ ''.'' @ c else c);
                  implementString =
                    (if Options_ConnectionLabels (Parser_RenderingOptions p) then implements else [])
              in dquote @ c' @ dquote @ '' <|-['' @ randColor @ '']- '' @ implementString
                   @ dquote @ Struct_PackageName structure @ ''.'' @ name @ dquote);
            orderedExtends = sort (map line (rangeKeys (Struct_Extends structure)))
        in (writeLines orderedExtends extendsBuilder, rng'))"

text \<open>
  \<open>updatePrivateAggregations\<close> writes every private aggregation into the map it is given.
  \<open>renderAggregations\<close> passes it \<open>structure.Aggregations\<close> itself (a Go map is a
  reference, and \<open>aggregationMap := structure.Aggregations\<close> copies the reference), so the
  writes land in the structure.
\<close>

definition updatePrivateAggregations :: "Struct \<Rightarrow> Struct" where
  "updatePrivateAggregations structure =
     structure\<lparr> Struct_Aggregations :=
       Struct_Aggregations structure \<union> Struct_PrivateAggregations structure \<rparr>"

fun renderAggregationList ::
  "ClassParser \<Rightarrow> string list \<Rightarrow> Struct \<Rightarrow> string \<Rightarrow> string \<Rightarrow> string \<Rightarrow> string" where
  "renderAggregationList p [] structure aggregations name randColor = aggregations"
| "renderAggregationList p (a # rest) structure aggregations name randColor =
     (let a' = (if \<not> Contains a ''.'' then GetPackageName p a structure @ ''.'' @ a else a);
          aggregationString =
            (if Options_ConnectionLabels (Parser_RenderingOptions p) then aggregates else [])
      in if GetPackageName p a' structure \<noteq> BuiltinPackageName
         then renderAggregationList p rest structure
                (WriteLineWithDepth 0
                   (dquote @ Struct_PackageName structure @ ''.'' @ name @ dquote
                      @ aggregationString @ '' o-['' @ randColor @ '']- '' @ dquote @ a' @ dquote)
                   aggregations)
                name randColor
         else renderAggregationList p rest structure aggregations name randColor)"

definition renderAggregationMap ::
  "ClassParser \<Rightarrow> string set \<Rightarrow> Struct \<Rightarrow> string \<Rightarrow> string \<Rightarrow> colors \<Rightarrow> string \<times> colors" where
  "renderAggregationMap p aggregationMap structure aggregations name rng =
     (case GetRandomColorInHex rng of (randColor, rng') \<Rightarrow>
        (renderAggregationList p (rangeKeys aggregationMap) structure aggregations name randColor,
         rng'))"

definition renderAggregations ::
  "ClassParser \<Rightarrow> Struct \<Rightarrow> string \<Rightarrow> string \<Rightarrow> colors \<Rightarrow> Struct \<times> string \<times> colors" where
  "renderAggregations p structure name aggregations rng =
     (let structure' =
            (if Options_AggregatePrivateMembers (Parser_RenderingOptions p)
             then updatePrivateAggregations structure else structure)
      in case renderAggregationMap p (Struct_Aggregations structure') structure' aggregations
                name rng of
           (aggregations', rng') \<Rightarrow> (structure', aggregations', rng'))"

text \<open>
  What a call of the renderer works on besides the parser: the text written so far, the
  three builders of a package's edges, and the random source.
\<close>

record renderState =
  str :: string
  composition :: string
  extendsLines :: string
  aggregations :: string
  rng :: colors

definition renderStructure ::
  "ClassParser \<Rightarrow> Struct \<Rightarrow> string \<Rightarrow> string \<Rightarrow> renderState \<Rightarrow> (Struct \<times> renderState) result" where
  "renderStructure p structure pack name s =
     (let sType =
            (if Struct_Type structure = ''class'' then ''<< (S,Aquamarine) >>''
             else if Struct_Type structure = ''alias'' then ''<< (T, #FF7700) >> ''
             else []);
          renderStructureType =
            (if Struct_Type structure = ''alias'' then ''class'' else Struct_Type structure);
          str1 = WriteLineWithDepth 1
                   (renderStructureType @ '' '' @ name @ '' '' @ sType @ '' {'') (str s)
      in case renderStructFields p structure [] [] of
           Panic \<Rightarrow> Panic
         | Ok (privateFields, publicFields) \<Rightarrow>
       (case renderStructMethods p structure [] [] of
           Panic \<Rightarrow> Panic
         | Ok (privateMethods, publicMethods) \<Rightarrow>
       (case renderCompositions p structure name (composition s) (rng s) of
           (composition', rng1) \<Rightarrow>
       (case renderExtends p structure name (extendsLines s) rng1 of
           (extends', rng2) \<Rightarrow>
       (case renderAggregations p structure name (aggregations s) rng2 of
           (structure', aggregations', rng3) \<Rightarrow>
         let str2 = (if privateFields \<noteq> [] then WriteLineWithDepth 0 privateFields str1 else str1);
             str3 = (if publicFields \<noteq> [] then WriteLineWithDepth 0 publicFields str2 else str2);
             str4 = (if privateMethods \<noteq> [] then WriteLineWithDepth 0 privateMethods str3 else str3);
             str5 = (if publicMethods \<noteq> [] then WriteLineWithDepth 0 publicMethods str4 else str4);
             str6 = WriteLineWithDepth 1 ''}'' str5
         in Ok (structure',
                \<lparr> str = str6, composition = composition', extendsLines = extends',
                  aggregations = aggregations', rng = rng3 \<rparr>))))))"

text \<open>The loop of \<open>renderStructures\<close> over the sorted names; it stores each structure back.\<close>

fun renderStructureList ::
  "ClassParser \<Rightarrow> string \<Rightarrow> string list \<Rightarrow> (string \<rightharpoonup> Struct) \<Rightarrow> renderState
     \<Rightarrow> ((string \<rightharpoonup> Struct) \<times> renderState) result" where
  "renderStructureList p pack [] structures s = Ok (structures, s)"
| "renderStructureList p pack (name # names) structures s =
     (case structures name of
        None \<Rightarrow> Panic
      | Some structure \<Rightarrow>
          (case renderStructure p structure pack name s of
             Panic \<Rightarrow> Panic
           | Ok (structure', s') \<Rightarrow>
               renderStructureList p pack names (structures(name \<mapsto> structure')) s'))"

definition renamedStructLines :: "ClassParser \<Rightarrow> string \<Rightarrow> string \<Rightarrow> string" where
  "renamedStructLines p pack lsb =
     (let renamed = (case AllRenamedStructs p pack of None \<Rightarrow> Map.empty | Some m \<Rightarrow> m)
      in foldl (\<lambda>b tempName.
                  WriteLineWithDepth 1 ''}''
                    (WriteLineWithDepth 2 aliasComplexNameComment
                      (WriteLineWithDepth 1
                         (''class '' @ dquote @ the (renamed tempName) @ dquote @ '' as ''
                            @ tempName @ '' {'') b)))
           lsb (rangeKeys (dom renamed)))"

definition renderStructures ::
  "ClassParser \<Rightarrow> string \<Rightarrow> (string \<rightharpoonup> Struct) \<Rightarrow> string \<Rightarrow> colors
     \<Rightarrow> ((string \<rightharpoonup> Struct) \<times> string \<times> colors) result" where
  "renderStructures p pack structures lsb colours =
     (if dom structures \<noteq> {} then
        (case renderStructureList p pack (rangeKeys (dom structures)) structures
                \<lparr> str = WriteLineWithDepth 0 (''namespace '' @ pack @ '' {'') lsb,
                  composition = [], extendsLines = [], aggregations = [], rng = colours \<rparr> of
           Panic \<Rightarrow> Panic
         | Ok (structures', s) \<Rightarrow>
             let str1 = renamedStructLines p pack (str s);
                 str2 = WriteLineWithDepth 0 ''}'' str1;
                 str3 = (if Options_Compositions (Parser_RenderingOptions p)
                         then WriteLineWithDepth 0 (composition s) str2 else str2);
                 str4 = (if Options_Implementations (Parser_RenderingOptions p)
                         then WriteLineWithDepth 0 (extendsLines s) str3 else str3);
                 str5 = (if Options_Aggregations (Parser_RenderingOptions p)
                         then WriteLineWithDepth 0 (aggregations s) str4 else str4)
             in Ok (structures', str5, rng s))
      else Ok (structures, lsb, colours))"

text \<open>
  Modelled from the spec: the order of \<open>AliasSlice\<close> (alias.go is not among the sources).
  Edges are written sorted by a stable key, the name and then the target of the edge.
\<close>

definition sortAliases :: "Alias list \<Rightarrow> Alias list" where
  "sortAliases as = sort_key (\<lambda>alias. (Alias_Name alias, Alias_AliasOf alias)) as"

definition aliasLine :: "ClassParser \<Rightarrow> string \<Rightarrow> string \<Rightarrow> Alias \<Rightarrow> string" where
  "aliasLine p randColor aliasString alias =
     (let aliasName =
            (if Count (Alias_Name alias) CHR ''.'' > 1 then
               (case SplitN2 (Alias_Name alias) CHR ''.'' of
                  [split0, split1] \<Rightarrow>
                    (case AllRenamedStructs p split0 of
                       Some aliasRename \<Rightarrow>
                         (case aliasRename (GenerateRenamedStructName split1) of
                            Some original \<Rightarrow> split0 @ ''.'' @ GenerateRenamedStructName split1
                          | None \<Rightarrow> Alias_Name alias)
                     | None \<Rightarrow> Alias_Name alias)
                | _ \<Rightarrow> Alias_Name alias)
             else Alias_Name alias)
      in dquote @ aliasName @ dquote @ '' #.['' @ randColor @ '']. '' @ aliasString
           @ dquote @ Alias_AliasOf alias @ dquote)"

definition renderAliases :: "ClassParser \<Rightarrow> string \<Rightarrow> colors \<Rightarrow> string \<times> colors" where
  "renderAliases p lsb colours =
     (case GetRandomColorInHex colours of (randColor, rng') \<Rightarrow>
        let aliasString =
              (if Options_ConnectionLabels (Parser_RenderingOptions p) then aliasOf else []);
            orderedAliases =
              sortAliases (map (\<lambda>k. the (AllAliases p k)) (rangeKeys (dom (AllAliases p))))
        in (writeLines (map (aliasLine p randColor aliasString) orderedAliases) lsb, rng'))"

text \<open>The loop of \<open>Render\<close> over the sorted package names.\<close>

fun renderPackages ::
  "string list \<Rightarrow> ClassParser \<Rightarrow> string \<Rightarrow> colors \<Rightarrow> (ClassParser \<times> string \<times> colors) result" where
  "renderPackages [] p lsb colours = Ok (p, lsb, colours)"
| "renderPackages (pack # packages) p lsb colours =
     (case Structure p pack of
        None \<Rightarrow> renderPackages packages p lsb colours
      | Some structures \<Rightarrow>
          (case renderStructures p pack structures lsb colours of
             Panic \<Rightarrow> Panic
           | Ok (structures', lsb', colours') \<Rightarrow>
               renderPackages packages
                 (p\<lparr> Structure := (Structure p)(pack \<mapsto> structures') \<rparr>) lsb' colours'))"

text \<open>
  \<open>Render\<close> returns the text; the model returns with it the parser as the call leaves it
  and the rest of the random source.
\<close>

definition Render :: "ClassParser \<Rightarrow> colors \<Rightarrow> (string \<times> ClassParser \<times> colors) result" where
  "Render p colours =
     (let ro = Parser_RenderingOptions p;
          str0 = WriteLineWithDepth 0 ranskSep
                   (WriteLineWithDepth 0 nodeSep (WriteLineWithDepth 0 ''@startuml'' []));
          str1 = (if Options_Title ro \<noteq> []
                  then WriteLineWithDepth 0 (''title '' @ Options_Title ro) str0 else str0);
          note = TrimSpace (Options_Notes ro);
          str2 = (if note \<noteq> []
                  then WriteLineWithDepth 0 ''end legend''
                         (WriteLineWithDepth 0 note (WriteLineWithDepth 0 ''legend'' str1))
                  else str1)
      in case renderPackages (rangeKeys (dom (Structure p))) p str2 colours of
           Panic \<Rightarrow> Panic
         | Ok (p', str3, colours') \<Rightarrow>
             (case (if Options_Aliases ro then renderAliases p' str3 colours'
                    else (str3, colours')) of
                (str4, colours'') \<Rightarrow>
                  let str5 = (if \<not> Options_Fields ro
                              then WriteLineWithDepth 0 ''hide fields'' str4 else str4);
                      str6 = (if \<not> Options_Methods ro
                              then WriteLineWithDepth 0 ''hide methods'' str5 else str5);
                      str7 = WriteLineWithDepth 0 ''@enduml'' str6
                  in Ok (str7, p', colours'')))"

section \<open>class\_parser.go: the model builder\<close>

text \<open>
  Modelled from the spec: the methods of \<open>Struct\<close> (struct.go is not among the sources)
  and \<open>getNewAlias\<close> (alias.go is not among the sources).
  \<^item> \<open>AddToComposition\<close> and \<open>AddToExtends\<close> add a name to the composition and the
    structural-extension set.
  \<^item> \<open>AddMethod\<close> appends the method built from the declaration's parameter and return
    list by the type resolver; a member that is no function signature adds nothing.
  \<^item> \<open>AddField\<close>: a field with no name is an embedding and its type is added to the
    composition set; for any other field the type is resolved, a \<open>Field\<close> is added, and
    every dependency of the type is added to the aggregation set for an exported field
    and to the private aggregation set for a non-exported one, which the first character
    of the field's name decides.
  \<^item> \<open>ImplementsInterface\<close>: a record satisfies an interface iff for every method of the
    interface the record declares a method with the same name, the same ordered parameter
    canonical types and the same ordered return canonical types.
  \<^item> \<open>getNewAlias\<close> builds the alias from its name, the package that declares it and the
    name it is an alias of.
\<close>

definition AddToComposition :: "Struct \<Rightarrow> string \<Rightarrow> Struct" where
  "AddToComposition st fType = st\<lparr> Struct_Composition := insert fType (Struct_Composition st) \<rparr>"

definition AddToExtends :: "Struct \<Rightarrow> string \<Rightarrow> Struct" where
  "AddToExtends st fType = st\<lparr> Struct_Extends := insert fType (Struct_Extends st) \<rparr>"

definition AddToAggregation :: "Struct \<Rightarrow> string \<Rightarrow> Struct" where
  "AddToAggregation st fType = st\<lparr> Struct_Aggregations := insert fType (Struct_Aggregations st) \<rparr>"

definition addToPrivateAggregation :: "Struct \<Rightarrow> string \<Rightarrow> Struct" where
  "addToPrivateAggregation st fType =
     st\<lparr> Struct_PrivateAggregations := insert fType (Struct_PrivateAggregations st) \<rparr>"

definition AddMethod :: "Struct \<Rightarrow> astField \<Rightarrow> (string \<rightharpoonup> string) \<Rightarrow> Struct" where
  "AddMethod st method aliases =
     (case snd method of
        FuncType params results \<Rightarrow>
          st\<lparr> Struct_Functions := Struct_Functions st @
                [getFunction params results
                   (case fst method of [] \<Rightarrow> [] | name # _ \<Rightarrow> name)
                   aliases (Struct_PackageName st)] \<rparr>
      | _ \<Rightarrow> st)"

definition AddField :: "Struct \<Rightarrow> astField \<Rightarrow> (string \<rightharpoonup> string) \<Rightarrow> string \<Rightarrow> Struct" where
  "AddField st field aliases packageName =
     (case getFieldType (snd field) aliases packageName of (theType, fundamentalTypes) \<Rightarrow>
        (case fst field of
           [] \<Rightarrow>
             AddToComposition st (Trim (replacePackageConstant theType packageName) ''*'')
         | name # _ \<Rightarrow>
             let st' = st\<lparr> Struct_Fields := Struct_Fields st @
                          [\<lparr> Field_Name = name,
                             Field_Type = replacePackageConstant theType [],
                             Field_FullType = replacePackageConstant theType packageName \<rparr>] \<rparr>;
                 private = (name \<noteq> [] \<and> IsLower (hd name))
             in foldl (\<lambda>s t.
                         if private
                         then addToPrivateAggregation s (replacePackageConstant t packageName)
                         else AddToAggregation s (replacePackageConstant t packageName))
                  st' fundamentalTypes))"

definition sameSignature :: "Function \<Rightarrow> Function \<Rightarrow> bool" where
  "sameSignature f1 f2 =
     (Function_Name f1 = Function_Name f2
      \<and> map Field_Type (Function_Parameters f1) = map Field_Type (Function_Parameters f2)
      \<and> Function_ReturnValues f1 = Function_ReturnValues f2)"

definition ImplementsInterface :: "Struct \<Rightarrow> Struct \<Rightarrow> bool" where
  "ImplementsInterface st interface =
     list_all (\<lambda>f1. list_ex (\<lambda>f2. sameSignature f1 f2) (Struct_Functions st))
       (Struct_Functions interface)"

definition getNewAlias :: "string \<Rightarrow> string \<Rightarrow> string \<Rightarrow> Alias" where
  "getNewAlias name packageName aliasedName =
     \<lparr> Alias_Name = name, Alias_PackageName = packageName, Alias_AliasOf = aliasedName \<rparr>"

text \<open>
  Declarations, as the parser hands them over. A type specification is a name and a type
  expression; every other specification (imports, values) is \<open>OtherSpec\<close>. A function
  declaration is its receiver list (\<open>None\<close> where \<open>Recv\<close> is \<open>nil\<close>, \<open>Some []\<close> where the
  list is), its name and the parameters and results of its type. An import is its local
  name, if it has one, and its path with the quotes removed.
\<close>

datatype spec = TypeSpec string expr | OtherSpec

datatype decl =
    GenDecl "spec list"
  | FuncDecl "astField list option" string "astField list" "astField list"
  | BadDecl

record importSpec =
  Import_Name :: "string option"
  Import_Path :: string

record File =
  File_Imports :: "importSpec list"
  File_Decls :: "decl list"

record Package =
  Package_Name :: string
  Package_Files :: "string \<rightharpoonup> File"

definition handleFuncDecl :: "ClassParser \<Rightarrow> decl \<Rightarrow> ClassParser result" where
  "handleFuncDecl p d =
     (case d of
        FuncDecl (Some ((recvNames, recvType) # _)) declName params results \<Rightarrow>
          (let theType0 = fst (getFieldType recvType (AllImports p) (CurrentPackageName p));
               theType1 = replacePackageConstant theType0 [];
               theType = Trim theType1 ''*.''
           in case getOrCreateStruct p theType of
                Panic \<Rightarrow> Panic
              | Ok (p1, structure) \<Rightarrow>
                  let p2 = modify p1 structure
                             (\<lambda>st. if Struct_Type st = [] then st\<lparr> Struct_Type := ''class'' \<rparr>
                                   else st);
                      fullName = CurrentPackageName p2 @ theType;
                      p3 = p2\<lparr> AllStructs := insert fullName (AllStructs p2) \<rparr>
                  in Ok (modify p3 structure
                           (\<lambda>st. AddMethod st ([declName], FuncType params results)
                                    (AllImports p3))))
      | _ \<Rightarrow> Ok p)"

fun handleGenDecStructType :: "ClassParser \<Rightarrow> string \<Rightarrow> astField list \<Rightarrow> ClassParser result" where
  "handleGenDecStructType p typeName [] = Ok p"
| "handleGenDecStructType p typeName (f # fs) =
     (case getOrCreateStruct p typeName of
        Panic \<Rightarrow> Panic
      | Ok (p1, structure) \<Rightarrow>
          handleGenDecStructType
            (modify p1 structure (\<lambda>st. AddField st f (AllImports p1) (CurrentPackageName p1)))
            typeName fs)"

fun handleGenDecInterfaceType :: "ClassParser \<Rightarrow> string \<Rightarrow> astField list \<Rightarrow> ClassParser result" where
  "handleGenDecInterfaceType p typeName [] = Ok p"
| "handleGenDecInterfaceType p typeName (f # fs) =
     (case snd f of
        FuncType params results \<Rightarrow>
          (case getOrCreateStruct p typeName of
             Panic \<Rightarrow> Panic
           | Ok (p1, structure) \<Rightarrow>
               handleGenDecInterfaceType
                 (modify p1 structure (\<lambda>st. AddMethod st f (AllImports p1))) typeName fs)
      | Ident t \<Rightarrow>
          (case getOrCreateStruct p typeName of
             Panic \<Rightarrow> Panic
           | Ok (p1, structure) \<Rightarrow>
               handleGenDecInterfaceType
                 (modify p1 structure
                    (\<lambda>st. AddToComposition st
                       (replacePackageConstant
                          (fst (getFieldType (Ident t) (AllImports p1) (Struct_PackageName st)))
                          (Struct_PackageName st))))
                 typeName fs)
      | _ \<Rightarrow> handleGenDecInterfaceType p typeName fs)"

text \<open>
  \<open>processSpec\<close>. The first part is the type switch: it yields the handled parser, the
  name under which the structure is registered, the kind of the declaration and, for an
  alias, the alias. The second part registers the kind, whatever kind the structure had.
\<close>

definition declareSpec ::
  "ClassParser \<Rightarrow> string \<Rightarrow> expr \<Rightarrow> (ClassParser \<times> string \<times> string \<times> Alias option) result" where
  "declareSpec p typeName c =
     (case c of
        StructType fieldList \<Rightarrow>
          (case handleGenDecStructType p typeName fieldList of
             Panic \<Rightarrow> Panic
           | Ok p1 \<Rightarrow> Ok (p1, typeName, ''class'', None))
      | InterfaceType methods \<Rightarrow>
          (case handleGenDecInterfaceType p typeName methods of
             Panic \<Rightarrow> Panic
           | Ok p1 \<Rightarrow> Ok (p1, typeName, ''interface'', None))
      | _ \<Rightarrow>
          (let basicType = fst (getFieldType (getBasicType c) (AllImports p) (CurrentPackageName p));
               aliasType = replacePackageConstant
                             (fst (getFieldType c (AllImports p) (CurrentPackageName p))) [];
               typeName' = (if \<not> IsPrimitiveString typeName
                            then CurrentPackageName p @ ''.'' @ typeName else typeName);
               packageName = (if IsPrimitiveString basicType then BuiltinPackageName
                              else CurrentPackageName p)
           in Ok (p, typeName', ''alias'',
                  Some (getNewAlias (packageName @ ''.'' @ aliasType) (CurrentPackageName p)
                          typeName'))))"

definition registerSpec ::
  "ClassParser \<Rightarrow> string \<Rightarrow> string \<Rightarrow> Alias option \<Rightarrow> ClassParser result" where
  "registerSpec p typeName declarationType alias =
     (case getOrCreateStruct p typeName of
        Panic \<Rightarrow> Panic
      | Ok (p1, structure) \<Rightarrow>
          (let p2 = modify p1 structure (\<lambda>st. st\<lparr> Struct_Type := declarationType \<rparr>);
               fullName = CurrentPackageName p2 @ ''.'' @ typeName
           in if declarationType = ''interface'' then
                Ok (p2\<lparr> AllInterfaces := insert fullName (AllInterfaces p2) \<rparr>)
              else if declarationType = ''class'' then
                Ok (p2\<lparr> AllStructs := insert fullName (AllStructs p2) \<rparr>)
              else if declarationType = ''alias'' then
                (case alias of
                   None \<Rightarrow> Panic
                 | Some a \<Rightarrow>
                     (let p3 = p2\<lparr> AllAliases := (AllAliases p2)(typeName \<mapsto> a) \<rparr>
                      in if Count (Alias_Name a) CHR ''.'' > 1 then
                           (case SplitN2 (Alias_Name a) CHR ''.'' of
                              [pack0, pack1] \<Rightarrow>
                                (let renamed =
                                       (case AllRenamedStructs p3 pack0 of
                                          None \<Rightarrow> Map.empty | Some m \<Rightarrow> m);
                                     renamedClass = GenerateRenamedStructName pack1
                                 in Ok (p3\<lparr> AllRenamedStructs :=
                                          (AllRenamedStructs p3)
                                            (pack0 \<mapsto> renamed(renamedClass \<mapsto> pack1)) \<rparr>))
                            | _ \<Rightarrow> Panic)
                         else Ok p3))
              else Ok p2))"

definition processSpec :: "ClassParser \<Rightarrow> spec \<Rightarrow> ClassParser result" where
  "processSpec p sp =
     (case sp of
        TypeSpec typeName c \<Rightarrow>
          (case declareSpec p typeName c of
             Panic \<Rightarrow> Panic
           | Ok (p1, typeName', declarationType, alias) \<Rightarrow>
               registerSpec p1 typeName' declarationType alias)
      | OtherSpec \<Rightarrow> Ok p)"

text \<open>A loop whose body may panic.\<close>

fun forEach :: "('s \<Rightarrow> 'a \<Rightarrow> 's result) \<Rightarrow> 'a list \<Rightarrow> 's \<Rightarrow> 's result" where
  "forEach body [] s = Ok s"
| "forEach body (x # xs) s =
     (case body s x of Panic \<Rightarrow> Panic | Ok s' \<Rightarrow> forEach body xs s')"

definition handleGenDecl :: "ClassParser \<Rightarrow> spec list \<Rightarrow> ClassParser result" where
  "handleGenDecl p specs = forEach processSpec specs p"

definition parseFileDeclarations :: "ClassParser \<Rightarrow> decl \<Rightarrow> ClassParser result" where
  "parseFileDeclarations p node =
     (case node of
        GenDecl specs \<Rightarrow> handleGenDecl p specs
      | FuncDecl recv name params results \<Rightarrow> handleFuncDecl p node
      | BadDecl \<Rightarrow> Ok p)"

definition parseImports :: "ClassParser \<Rightarrow> importSpec \<Rightarrow> ClassParser" where
  "parseImports p impt =
     (let clean = Import_Path impt
      in case Import_Name impt of
           Some name \<Rightarrow>
             p\<lparr> AllImports := (AllImports p)
                  (name \<mapsto> map (\<lambda>c. if c = CHR ''/'' then CHR ''.'' else c) clean) \<rparr>
         | None \<Rightarrow>
             (let chunks = Split clean CHR ''/''
              in p\<lparr> AllImports := (AllImports p)(last chunks \<mapsto> Join chunks ''.'') \<rparr>))"

definition parseFile :: "ClassParser \<Rightarrow> File \<Rightarrow> ClassParser result" where
  "parseFile p f =
     forEach parseFileDeclarations (File_Decls f) (foldl parseImports p (File_Imports f))"

definition parsePackage :: "ClassParser \<Rightarrow> Package \<Rightarrow> string \<Rightarrow> ClassParser result" where
  "parsePackage p pack base =
     (let p1 = p\<lparr> CurrentPackageName := base @ ''.'' @ Package_Name pack \<rparr>;
          p2 = (case Structure p1 (CurrentPackageName p1) of
                  None \<Rightarrow> p1\<lparr> Structure := (Structure p1)(CurrentPackageName p1 \<mapsto> Map.empty) \<rparr>
                | Some m \<Rightarrow> p1);
          sortedFiles = rangeKeys (dom (Package_Files pack))
      in forEach
           (\<lambda>q fileName.
              if \<not> HasSuffix fileName ''_test.go''
              then (case Package_Files pack fileName of
                      None \<Rightarrow> Panic
                    | Some f \<Rightarrow> parseFile q f)
              else Ok q)
           sortedFiles p2)"

text \<open>
  \<open>parseDirectory\<close>. \<open>parser.ParseDir\<close> reads and parses the directory; it is given as
  the function \<open>ParseDir\<close> from the path to the error or to the packages found, in the
  order the \<open>range\<close> loop visits them. Where the path does not contain the module base,
  \<open>LastIndex\<close> is \<open>-1\<close> and the slice expression panics.
\<close>

definition parseDirectory ::
  "(string \<Rightarrow> goError + Package list) \<Rightarrow> ClassParser \<Rightarrow> string \<Rightarrow> (ClassParser \<times> error) result" where
  "parseDirectory ParseDir p directoryPath =
     (case LastIndex directoryPath (Options_ModuleBase (Parser_RenderingOptions p)) of
        None \<Rightarrow> Panic
      | Some found \<Rightarrow>
          (let base = Split (drop found directoryPath) CHR ''/''
           in case ParseDir directoryPath of
                Inl err \<Rightarrow> Ok (p, Some err)
              | Inr packages \<Rightarrow>
                  (case forEach (\<lambda>q v. parsePackage q v (Join (butlast base) ''.'')) packages p of
                     Panic \<Rightarrow> Panic
                   | Ok p' \<Rightarrow> Ok (p', None))))"

text \<open>
  \<open>afero.Walk\<close> visits a file tree in lexical order and calls the function it is given
  with the path, the file information and the error of each entry; the tree below a
  directory for which the function returns \<open>SkipDir\<close> is not visited, and any other
  error ends the walk. A node is a file, a directory with its entries, a directory whose
  entries cannot be read, or an entry whose information cannot be read; each carries its
  path and, except the last, the name its file information gives.
\<close>

datatype fsNode =
    FsFile string string
  | FsDir string string "fsNode list"
  | FsUnreadableDir string string goError
  | FsLstatError string goError

text \<open>
  The function \<open>NewClassDiagramWithOptions\<close> gives to the walk: directories whose name
  starts with a dot or is \<open>vendor\<close>, and ignored directories, are skipped; every other
  directory is parsed.
\<close>

datatype walkResult = Continue | SkipDir | Failed goError

definition walkFn ::
  "(string \<Rightarrow> goError + Package list) \<Rightarrow> string set \<Rightarrow> ClassParser \<Rightarrow> string \<Rightarrow> string option
     \<Rightarrow> error \<Rightarrow> (ClassParser \<times> walkResult) result" where
  "walkFn ParseDir ignoreDirectoryMap p path dirName err =
     (case err of
        Some e \<Rightarrow> Ok (p, Failed e)
      | None \<Rightarrow>
          (case dirName of
             None \<Rightarrow> Ok (p, Continue)
           | Some name \<Rightarrow>
               if HasPrefix name ''.'' \<or> name = ''vendor'' then Ok (p, SkipDir)
               else if path \<in> ignoreDirectoryMap then Ok (p, SkipDir)
               else (case parseDirectory ParseDir p path of
                       Panic \<Rightarrow> Panic
                     | Ok (p', Some e) \<Rightarrow> Ok (p', Failed e)
                     | Ok (p', None) \<Rightarrow> Ok (p', Continue))))"

function walk ::
    "(string \<Rightarrow> goError + Package list) \<Rightarrow> string set \<Rightarrow> ClassParser \<Rightarrow> fsNode
       \<Rightarrow> (ClassParser \<times> error) result"
  and walkEntries ::
    "(string \<Rightarrow> goError + Package list) \<Rightarrow> string set \<Rightarrow> ClassParser \<Rightarrow> fsNode list
       \<Rightarrow> (ClassParser \<times> error) result"
where
  "walk ParseDir ignored p (FsLstatError path err) =
     (case walkFn ParseDir ignored p path None (Some err) of
        Panic \<Rightarrow> Panic
      | Ok (p', Failed e) \<Rightarrow> Ok (p', Some e)
      | Ok (p', _) \<Rightarrow> Ok (p', None))"
| "walk ParseDir ignored p (FsFile path name) =
     (case walkFn ParseDir ignored p path None None of
        Panic \<Rightarrow> Panic
      | Ok (p', Failed e) \<Rightarrow> Ok (p', Some e)
      | Ok (p', _) \<Rightarrow> Ok (p', None))"
| "walk ParseDir ignored p (FsUnreadableDir path name err) =
     (case walkFn ParseDir ignored p path (Some name) None of
        Panic \<Rightarrow> Panic
      | Ok (p', Failed e) \<Rightarrow> Ok (p', Some e)
      | Ok (p', SkipDir) \<Rightarrow> Ok (p', None)
      | Ok (p', Continue) \<Rightarrow>
          (case walkFn ParseDir ignored p' path (Some name) (Some err) of
             Panic \<Rightarrow> Panic
           | Ok (p'', Failed e) \<Rightarrow> Ok (p'', Some e)
           | Ok (p'', _) \<Rightarrow> Ok (p'', None)))"
| "walk ParseDir ignored p (FsDir path name entries) =
     (case walkFn ParseDir ignored p path (Some name) None of
        Panic \<Rightarrow> Panic
      | Ok (p', Failed e) \<Rightarrow> Ok (p', Some e)
      | Ok (p', SkipDir) \<Rightarrow> Ok (p', None)
      | Ok (p', Continue) \<Rightarrow> walkEntries ParseDir ignored p' entries)"
| "walkEntries ParseDir ignored p [] = Ok (p, None)"
| "walkEntries ParseDir ignored p (entry # entries) =
     (case walk ParseDir ignored p entry of
        Panic \<Rightarrow> Panic
      | Ok (p', Some e) \<Rightarrow> Ok (p', Some e)
      | Ok (p', None) \<Rightarrow> walkEntries ParseDir ignored p' entries)"
  by pat_completeness auto

termination
  by (relation "measure (\<lambda>x. case x of
         Inl (ParseDir, ignored, p, node) \<Rightarrow> size node
       | Inr (ParseDir, ignored, p, entries) \<Rightarrow> size_list size entries)")
     auto

text \<open>
  The relationship pass: every name in \<open>AllStructs\<close> that \<open>getStruct\<close> finds is compared
  with every interface. The order in which the two sets are visited does not show in the
  result, since a structure only gains names in its set. \<open>ImplementsInterface\<close> reads the
  methods of the interface, which panics on \<open>nil\<close>.
\<close>

definition addImplementation :: "structPtr \<Rightarrow> ClassParser \<Rightarrow> string \<Rightarrow> ClassParser result" where
  "addImplementation st p i =
     (case getStruct p i of
        None \<Rightarrow> Panic
      | Some interface \<Rightarrow>
          (case (deref p st, deref p interface) of
             (Some s, Some it) \<Rightarrow>
               Ok (if ImplementsInterface s it then modify p st (\<lambda>x. AddToExtends x i) else p)
           | _ \<Rightarrow> Panic))"

definition addImplementations :: "ClassParser \<Rightarrow> string \<Rightarrow> ClassParser result" where
  "addImplementations p s =
     (case getStruct p s of
        None \<Rightarrow> Ok p
      | Some st \<Rightarrow> forEach (addImplementation st) (rangeKeys (AllInterfaces p)) p)"

definition resolveImplementations :: "ClassParser \<Rightarrow> ClassParser result" where
  "resolveImplementations p = forEach addImplementations (rangeKeys (AllStructs p)) p"

text \<open>
  \<open>NewClassDiagramWithOptions\<close>. What the call reads from outside the program is given
  with it: the result of \<open>os.Getwd\<close>, the file tree the file system of the options holds
  at a path, and \<open>parser.ParseDir\<close>.
\<close>

record ClassDiagramOptions =
  Diagram_FileSystem :: "string \<Rightarrow> fsNode"
  Diagram_Directories :: "string list"
  Diagram_IgnoredDirectories :: "string list"
  Diagram_RenderingOptions :: "(int \<times> goValue) list"
  Diagram_Recursive :: bool

definition newClassParser :: "string \<Rightarrow> ClassParser" where
  "newClassParser cwd =
     \<lparr> Parser_RenderingOptions =
         \<lparr> Options_Title = [],
           Options_Notes = [],
           Options_ModuleBase = pathBase cwd,
           Options_Aggregations = False,
           Options_Fields = True,
           Options_Methods = True,
           Options_Compositions = True,
           Options_Implementations = True,
           Options_Aliases = True,
           Options_ConnectionLabels = False,
           Options_AggregatePrivateMembers = False,
           Options_PrivateMembers = False \<rparr>,
       Structure = Map.empty,
       CurrentPackageName = [],
       AllInterfaces = {},
       AllStructs = {},
       AllImports = Map.empty,
       AllAliases = Map.empty,
       AllRenamedStructs = Map.empty \<rparr>"

fun parseDirectories ::
  "(string \<Rightarrow> goError + Package list) \<Rightarrow> ClassDiagramOptions \<Rightarrow> ClassParser \<Rightarrow> string list
     \<Rightarrow> (ClassParser \<times> error) result" where
  "parseDirectories ParseDir options p [] = Ok (p, None)"
| "parseDirectories ParseDir options p (directoryPath # rest) =
     (case (if Diagram_Recursive options
            then walk ParseDir (set (Diagram_IgnoredDirectories options)) p
                   (Diagram_FileSystem options directoryPath)
            else parseDirectory ParseDir p directoryPath) of
        Panic \<Rightarrow> Panic
      | Ok (p', Some err) \<Rightarrow> Ok (p', Some err)
      | Ok (p', None) \<Rightarrow> parseDirectories ParseDir options p' rest)"

definition NewClassDiagramWithOptions ::
  "(goError + string) \<Rightarrow> (string \<Rightarrow> goError + Package list) \<Rightarrow> ClassDiagramOptions
     \<Rightarrow> (ClassParser option \<times> error) result" where
  "NewClassDiagramWithOptions Getwd ParseDir options =
     (case Getwd of
        Inl err \<Rightarrow> Ok (None, Some err)
      | Inr cwd \<Rightarrow>
          (case parseDirectories ParseDir options (newClassParser cwd)
                  (Diagram_Directories options) of
             Panic \<Rightarrow> Panic
           | Ok (p1, Some err) \<Rightarrow> Ok (None, Some err)
           | Ok (p1, None) \<Rightarrow>
               (case resolveImplementations p1 of
                  Panic \<Rightarrow> Panic
                | Ok p2 \<Rightarrow>
                    (case SetRenderingOptions p2 (Diagram_RenderingOptions options) of
                       Panic \<Rightarrow> Panic
                     | Ok (p3, Some err) \<Rightarrow> Ok (None, Some err)
                     | Ok (p3, None) \<Rightarrow> Ok (Some p3, None)))))"

section \<open>What the claims speak of\<close>

text \<open>
  A key of the options map is recognized when \<open>SetRenderingOptions\<close> has a case for it;
  its value has the expected type when the type assertion of that case succeeds.
\<close>

definition recognizedOption :: "int \<Rightarrow> bool" where
  "recognizedOption option = (0 \<le> option \<and> option \<le> 10)"

definition expectedType :: "int \<Rightarrow> goValue \<Rightarrow> bool" where
  "expectedType option val =
     (if option = RenderTitle \<or> option = RenderNotes
      then (case val of StringValue s \<Rightarrow> True | _ \<Rightarrow> False)
      else if recognizedOption option
      then (case val of BoolValue b \<Rightarrow> True | _ \<Rightarrow> False)
      else True)"

text \<open>
  The options a map of recognized keys asks for: each field is the value under its key,
  and the field as it was where the map has no such key.
\<close>

definition boolOption :: "(int \<rightharpoonup> goValue) \<Rightarrow> int \<Rightarrow> bool \<Rightarrow> bool" where
  "boolOption m key old = (case m key of Some (BoolValue b) \<Rightarrow> b | _ \<Rightarrow> old)"

definition stringOption :: "(int \<rightharpoonup> goValue) \<Rightarrow> int \<Rightarrow> string \<Rightarrow> string" where
  "stringOption m key old = (case m key of Some (StringValue s) \<Rightarrow> s | _ \<Rightarrow> old)"

definition optionsFromMap :: "(int \<rightharpoonup> goValue) \<Rightarrow> RenderingOptions \<Rightarrow> RenderingOptions" where
  "optionsFromMap m ro =
     \<lparr> Options_Title = stringOption m RenderTitle (Options_Title ro),
       Options_Notes = stringOption m RenderNotes (Options_Notes ro),
       Options_ModuleBase = Options_ModuleBase ro,
       Options_Aggregations = boolOption m RenderAggregations (Options_Aggregations ro),
       Options_Fields = boolOption m RenderFields (Options_Fields ro),
       Options_Methods = boolOption m RenderMethods (Options_Methods ro),
       Options_Compositions = boolOption m RenderCompositions (Options_Compositions ro),
       Options_Implementations =
         boolOption m RenderImplementations (Options_Implementations ro),
       Options_Aliases = boolOption m RenderAliases (Options_Aliases ro),
       Options_ConnectionLabels =
         boolOption m RenderConnectionLabels (Options_ConnectionLabels ro),
       Options_AggregatePrivateMembers =
         boolOption m AggregatePrivateMembers (Options_AggregatePrivateMembers ro),
       Options_PrivateMembers = boolOption m RenderPrivateMembers (Options_PrivateMembers ro) \<rparr>"

section \<open>Examples\<close>

text \<open>
  A package \<open>main\<close> in the directory \<open>app/main\<close> of the module \<open>app\<close>, with one file:
  \<^verbatim>\<open>
  type MyInt int
  func (m MyInt) String() string
  type Stringer interface { String() string }
  type Point struct{}
  func (p Point) String() string
  \<close>
\<close>

definition exampleFile :: File where
  "exampleFile =
     \<lparr> File_Imports = [],
       File_Decls =
         [GenDecl [TypeSpec ''MyInt'' (Ident ''int'')],
          FuncDecl (Some [([''m''], Ident ''MyInt'')]) ''String'' [] [([], Ident ''string'')],
          GenDecl [TypeSpec ''Stringer''
                     (InterfaceType [([''String''], FuncType [] [([], Ident ''string'')])])],
          GenDecl [TypeSpec ''Point'' (StructType [])],
          FuncDecl (Some [([''p''], Ident ''Point'')]) ''String'' [] [([], Ident ''string'')]] \<rparr>"

definition examplePackage :: Package where
  "examplePackage = \<lparr> Package_Name = ''main'', Package_Files = [''main.go'' \<mapsto> exampleFile] \<rparr>"

definition exampleDiagramOptions :: ClassDiagramOptions where
  "exampleDiagramOptions =
     \<lparr> Diagram_FileSystem = (\<lambda>path. FsDir path ''main'' []),
       Diagram_Directories = [''app/main''],
       Diagram_IgnoredDirectories = [],
       Diagram_RenderingOptions = [],
       Diagram_Recursive = False \<rparr>"

definition exampleDiagram :: "(ClassParser option \<times> error) result" where
  "exampleDiagram =
     NewClassDiagramWithOptions (Inr ''/home/dev/app'') (\<lambda>path. Inr [examplePackage])
       exampleDiagramOptions"

text \<open>
  The kind of the classifier a pointer leads to; the kind a type declaration declares and
  the name under which \<open>processSpec\<close> registers the classifier it declares.
\<close>

definition kindOf :: "ClassParser \<Rightarrow> structPtr \<Rightarrow> string option" where
  "kindOf p ptr = map_option Struct_Type (deref p ptr)"

definition kindAfter :: "ClassParser result \<Rightarrow> structPtr \<Rightarrow> string option" where
  "kindAfter r ptr = (case r of Ok p \<Rightarrow> kindOf p ptr | Panic \<Rightarrow> None)"

definition declaredKind :: "expr \<Rightarrow> string" where
  "declaredKind c =
     (case c of StructType fieldList \<Rightarrow> ''class''
              | InterfaceType methods \<Rightarrow> ''interface''
              | _ \<Rightarrow> ''alias'')"

definition declaredName :: "ClassParser \<Rightarrow> string \<Rightarrow> expr \<Rightarrow> string" where
  "declaredName p typeName c =
     (if declaredKind c = ''alias'' \<and> \<not> IsPrimitiveString typeName
      then CurrentPackageName p @ ''.'' @ typeName else typeName)"

text \<open>Every classifier of \<open>p\<close> is a classifier of \<open>p'\<close> with the kind it had.\<close>

definition kindsKept :: "ClassParser \<Rightarrow> ClassParser \<Rightarrow> bool" where
  "kindsKept p p' =
     (\<forall>q st. deref p q = Some st \<longrightarrow> (\<exists>st'. deref p' q = Some st' \<and> Struct_Type st' = Struct_Type st))"

text \<open>
  The parser as \<open>parsePackage\<close> has it when it starts on the files of a package \<open>net\<close> of
  the module \<open>app\<close>.
\<close>

definition exampleNetParser :: ClassParser where
  "exampleNetParser =
     (newClassParser ''/home/dev/app'')
       \<lparr> Structure := [''app.net'' \<mapsto> Map.empty], CurrentPackageName := ''app.net'',
         AllImports := [''http'' \<mapsto> ''net.http''] \<rparr>"

text \<open>The same parser after the declaration \<^verbatim>\<open>type Conn struct{}\<close>.\<close>

definition exampleConnParser :: ClassParser where
  "exampleConnParser =
     exampleNetParser
       \<lparr> Structure := [''app.net'' \<mapsto> [''Conn'' \<mapsto> (newStruct ''app.net'')\<lparr> Struct_Type := ''class'' \<rparr>]],
         AllStructs := {''app.net.Conn''} \<rparr>"

text \<open>The name of the classifier a method declaration belongs to.\<close>

definition receiverName :: "ClassParser \<Rightarrow> expr \<Rightarrow> string" where
  "receiverName p recvType =
     Trim (replacePackageConstant
             (fst (getFieldType recvType (AllImports p) (CurrentPackageName p))) []) ''*.''"

text \<open>
  A registry is well formed when every field and every method of its structures has a
  name, as the identifiers of a parsed source have.
\<close>

definition wellFormedStruct :: "Struct \<Rightarrow> bool" where
  "wellFormedStruct st =
     (list_all (\<lambda>f. Field_Name f \<noteq> []) (Struct_Fields st)
      \<and> list_all (\<lambda>m. Function_Name m \<noteq> []) (Struct_Functions st))"





text \<open>
  The structure as a call of the renderer leaves it: with its private aggregations among
  its aggregations where the option asks for them.
\<close>

definition afterRender :: "ClassParser \<Rightarrow> Struct \<Rightarrow> Struct" where
  "afterRender p st =
     (if Options_AggregatePrivateMembers (Parser_RenderingOptions p)
      then updatePrivateAggregations st else st)"

text \<open>The text a call of the renderer returns, and the parser as the call leaves it.\<close>

definition renderedText :: "(string \<times> ClassParser \<times> colors) result \<Rightarrow> string option" where
  "renderedText r = (case r of Ok (text, p, colours) \<Rightarrow> Some text | Panic \<Rightarrow> None)"

definition renderedParser :: "(string \<times> ClassParser \<times> colors) result \<Rightarrow> ClassParser option" where
  "renderedParser r = (case r of Ok (text, p, colours) \<Rightarrow> Some p | Panic \<Rightarrow> None)"

text \<open>A text, given by its lines.\<close>

definition textOf :: "string list \<Rightarrow> string" where
  "textOf ls = concat (map (\<lambda>l. l @ newline) ls)"



text \<open>
  Two maps of structures, and two parsers, that a call of the renderer cannot tell apart:
  they differ at most in private aggregations that the call itself adds to the
  aggregations.
\<close>

definition sameStructures ::
  "ClassParser \<Rightarrow> (string \<rightharpoonup> Struct) \<Rightarrow> (string \<rightharpoonup> Struct) \<Rightarrow> bool" where
  "sameStructures p m m' =
     (\<forall>name. map_option (afterRender p) (m name) = map_option (afterRender p) (m' name))"


text \<open>The second of two calls of the renderer, one after the other.\<close>

definition RenderAgain :: "ClassParser \<Rightarrow> colors \<Rightarrow> (string \<times> ClassParser \<times> colors) result" where
  "RenderAgain p colours =
     (case Render p colours of
        Panic \<Rightarrow> Panic
      | Ok (text, p', colours') \<Rightarrow> Render p' colours')"

text \<open>
  The parser of the package \<open>net\<close> after the declaration
  \<^verbatim>\<open>type ReadCloser interface { Reader }\<close>, and a random source whose first four colours
  are red and whose other colours are blue.
\<close>

definition exampleEmbedParser :: ClassParser where
  "exampleEmbedParser =
     exampleNetParser
       \<lparr> Structure :=
           [''app.net'' \<mapsto>
              [''ReadCloser'' \<mapsto>
                 (newStruct ''app.net'')
                   \<lparr> Struct_Type := ''interface'', Struct_Composition := {''app.net.Reader''} \<rparr>]],
         AllInterfaces := {''app.net.ReadCloser''} \<rparr>"

definition exampleColours :: colors where
  "exampleColours n = (if n < 4 then ''#ff0000'' else ''#0000ff'')"

text \<open>
  A registry with the structure of \<^verbatim>\<open>type Server struct { conn *Conn }\<close>: the field is
  not exported, and \<open>Conn\<close> is a private aggregation. The options ask for aggregations and
  for the private ones among them.
\<close>

definition exampleServer :: Struct where
  "exampleServer =
     (newStruct ''app.net'')
       \<lparr> Struct_Fields := [\<lparr> Field_Name = ''conn'', Field_Type = ''*.Conn'',
                             Field_FullType = ''*app.net.Conn'' \<rparr>],
         Struct_Type := ''class'',
         Struct_PrivateAggregations := {''app.net.Conn''} \<rparr>"

definition exampleAggregateParser :: ClassParser where
  "exampleAggregateParser =
     exampleNetParser
       \<lparr> Parser_RenderingOptions :=
           (Parser_RenderingOptions exampleNetParser)
             \<lparr> Options_Aggregations := True, Options_AggregatePrivateMembers := True \<rparr>,
         Structure := [''app.net'' \<mapsto> [''Server'' \<mapsto> exampleServer]],
         AllStructs := {''app.net.Server''} \<rparr>"

text \<open>
  A registry with a structure \<open>Counter\<close> whose aggregations hold the primitive type
  \<open>int\<close>; the options ask for aggregations.
\<close>

definition exampleCounter :: Struct where
  "exampleCounter =
     (newStruct ''app.net'') \<lparr> Struct_Type := ''class'', Struct_Aggregations := {''int''} \<rparr>"

definition exampleCounterParser :: ClassParser where
  "exampleCounterParser =
     exampleNetParser
       \<lparr> Parser_RenderingOptions :=
           (Parser_RenderingOptions exampleNetParser) \<lparr> Options_Aggregations := True \<rparr>,
         Structure := [''app.net'' \<mapsto> [''Counter'' \<mapsto> exampleCounter]],
         AllStructs := {''app.net.Counter''} \<rparr>"

text \<open>
  The parser a successful call of \<open>NewClassDiagramWithOptions\<close> returns and the structure
  it holds at a pointer; the structure a call of \<open>Render\<close> leaves at a pointer; a call of
  \<open>Render\<close> after a first call and a change of the parser it left.
\<close>

definition builtParser :: "(ClassParser option \<times> error) result \<Rightarrow> ClassParser option" where
  "builtParser r = (case r of Ok (Some p, None) \<Rightarrow> Some p | _ \<Rightarrow> None)"

definition builtStruct :: "(ClassParser option \<times> error) result \<Rightarrow> structPtr \<Rightarrow> Struct option" where
  "builtStruct r ptr = (case builtParser r of Some p \<Rightarrow> deref p ptr | None \<Rightarrow> None)"

definition renderedStruct ::
  "(string \<times> ClassParser \<times> colors) result \<Rightarrow> structPtr \<Rightarrow> Struct option" where
  "renderedStruct r ptr = (case renderedParser r of Some p \<Rightarrow> deref p ptr | None \<Rightarrow> None)"

definition RenderThen ::
  "(ClassParser \<Rightarrow> ClassParser) \<Rightarrow> ClassParser \<Rightarrow> colors
     \<Rightarrow> (string \<times> ClassParser \<times> colors) result" where
  "RenderThen change p colours =
     (case Render p colours of
        Panic \<Rightarrow> Panic
      | Ok (text, p', colours') \<Rightarrow> Render (change p') colours')"

definition withoutPrivateAggregations :: "ClassParser \<Rightarrow> ClassParser" where
  "withoutPrivateAggregations p =
     p\<lparr> Parser_RenderingOptions :=
          (Parser_RenderingOptions p)\<lparr> Options_AggregatePrivateMembers := False \<rparr> \<rparr>"

text \<open>The method \<open>String() string\<close>, and the structures of the package \<open>main\<close> above.\<close>

definition exampleStringMethod :: Function where
  "exampleStringMethod =
     \<lparr> Function_Name = ''String'', Function_Parameters = [],
       Function_ReturnValues = [''string''] \<rparr>"

definition exampleMyInt :: Struct where
  "exampleMyInt =
     (newStruct ''app.main'')
       \<lparr> Struct_Functions := [exampleStringMethod], Struct_Type := ''class'' \<rparr>"

definition exampleStringer :: Struct where
  "exampleStringer =
     (newStruct ''app.main'')
       \<lparr> Struct_Functions := [exampleStringMethod], Struct_Type := ''interface'' \<rparr>"

definition examplePoint :: Struct where
  "examplePoint =
     (newStruct ''app.main'')
       \<lparr> Struct_Functions := [exampleStringMethod], Struct_Type := ''class'',
         Struct_Extends := {''app.main.Stringer''} \<rparr>"

text \<open>
  A package \<open>net\<close> in the directory \<open>app/net\<close> of the module \<open>app\<close>, with one file:
  \<^verbatim>\<open>
  type Server struct { conn *Conn }
  \<close>
  and the options that ask for the aggregations and for those of private members.
\<close>

definition exampleServerFile :: File where
  "exampleServerFile =
     \<lparr> File_Imports = [],
       File_Decls =
         [GenDecl [TypeSpec ''Server'' (StructType [([''conn''], StarExpr (Ident ''Conn''))])]] \<rparr>"

definition exampleServerPackage :: Package where
  "exampleServerPackage =
     \<lparr> Package_Name = ''net'', Package_Files = [''server.go'' \<mapsto> exampleServerFile] \<rparr>"

definition exampleServerOptions :: ClassDiagramOptions where
  "exampleServerOptions =
     \<lparr> Diagram_FileSystem = (\<lambda>path. FsDir path ''net'' []),
       Diagram_Directories = [''app/net''],
       Diagram_IgnoredDirectories = [],
       Diagram_RenderingOptions =
         [(RenderAggregations, BoolValue True), (AggregatePrivateMembers, BoolValue True)],
       Diagram_Recursive = False \<rparr>"

definition exampleServerDiagram :: "(ClassParser option \<times> error) result" where
  "exampleServerDiagram =
     NewClassDiagramWithOptions (Inr ''/home/dev/app'') (\<lambda>path. Inr [exampleServerPackage])
       exampleServerOptions"

section \<open>Unfolding the definitions\<close>

lemmas option_keys = RenderAggregations_def RenderCompositions_def RenderImplementations_def
  RenderAliases_def RenderFields_def RenderMethods_def RenderConnectionLabels_def
  RenderTitle_def RenderNotes_def AggregatePrivateMembers_def RenderPrivateMembers_def

lemmas string_defs = HasPrefix_def HasSuffix_def Contains_def Count_def SplitN2_def
  Replace1_def Trim_def Repeat_def newline_def dquote_def squote_def tab_def
  packageConstant_def replacePackageConstant_def isPrimitiveString_def IsPrimitiveString_def
  globalPrimitives_def BuiltinPackageName_def pathBase_def IsLower_def isAlphaNumeric_def
  GenerateRenamedStructName_def

lemmas builder_defs = NewClassDiagramWithOptions_def parseDirectory_def parsePackage_def
  parseFile_def parseFileDeclarations_def handleGenDecl_def processSpec_def declareSpec_def
  registerSpec_def handleFuncDecl_def getOrCreateStruct_def store_def modify_def deref_def
  newStruct_def newClassParser_def AddMethod_def AddField_def AddToComposition_def
  AddToExtends_def AddToAggregation_def addToPrivateAggregation_def getFunction_def
  newFunction_def newParameters_def getNewAlias_def resolveImplementations_def
  addImplementations_def addImplementation_def getStruct_def ImplementsInterface_def
  sameSignature_def rangeKeys_def

lemmas example_defs = exampleDiagram_def exampleDiagramOptions_def examplePackage_def
  exampleFile_def exampleServerDiagram_def exampleServerOptions_def exampleServerPackage_def
  exampleServerFile_def builtParser_def builtStruct_def exampleStringMethod_def
  exampleMyInt_def exampleStringer_def examplePoint_def

lemmas kind_defs = kindOf_def kindAfter_def declaredKind_def declaredName_def
  exampleNetParser_def exampleConnParser_def

lemmas render_defs = Render_def renderPackages.simps renderStructures_def
  renderStructureList.simps renderStructure_def renderStructFields_def renderStructMethods_def
  renderCompositions_def renderExtends_def renderAggregations_def renderAggregationMap_def
  renderAliases_def renamedStructLines_def rangeKeys_def writeLines_def WriteLineWithDepth_def
  GetRandomColorInHex_def updatePrivateAggregations_def GetPackageName_def nodeSep_def
  ranskSep_def TrimSpace_def aggregates_def extends_def implements_def aliasOf_def
  sortAliases_def aliasLine_def methodLine_def renderedText_def renderedParser_def textOf_def
  aliasComplexNameComment_def eval_nat_numeral

lemmas example_render_defs = exampleEmbedParser_def exampleColours_def exampleServer_def
  exampleAggregateParser_def exampleCounter_def exampleCounterParser_def RenderAgain_def
  RenderThen_def withoutPrivateAggregations_def renderedStruct_def

section \<open>The type resolver\<close>

text \<open>
  Claim C3, as amended. For a pointer to \<open>T\<close>, a slice or array of \<open>T\<close> and a channel of
  \<open>T\<close>, \<open>getFieldType\<close> returns the display of \<open>T\<close> behind the marker (\<open>*\<close>, \<open>[]\<close>,
  \<open><font color=blue>chan</font>\<close> and a space) and the dependencies of \<open>T\<close> unchanged.
  For a variadic \<open>...T\<close> it returns the display of \<open>T\<close> behind \<open>...\<close> and no dependency
  at all: \<open>getEllipsis\<close> drops the dependencies of \<open>T\<close>.
\<close>

theorem getFieldType_wrappers:
  "getFieldType (StarExpr T) aliases packageName =
     (''*'' @ fst (getFieldType T aliases packageName),
      snd (getFieldType T aliases packageName))
   \<and> getFieldType (ArrayType T) aliases packageName =
     (''[]'' @ fst (getFieldType T aliases packageName),
      snd (getFieldType T aliases packageName))
   \<and> getFieldType (ChanType T) aliases packageName =
     (''<font color=blue>chan</font> '' @ fst (getFieldType T aliases packageName),
      snd (getFieldType T aliases packageName))
   \<and> getFieldType (Ellipsis T) aliases packageName =
     (''...'' @ fst (getFieldType T aliases packageName), [])"
  by (simp add: case_prod_beta)

text \<open>
  Claim C3 as stated fails for the variadic case: \<open>...Foo\<close> has no dependency, while
  \<open>Foo\<close> depends on \<open>{packageName}.Foo\<close>.
\<close>

theorem getFieldType_ellipsis_drops_dependencies:
  "getFieldType (Ellipsis (Ident ''Foo'')) Map.empty ''main'' = (''...{packageName}.Foo'', [])
   \<and> getFieldType (Ident ''Foo'') Map.empty ''main''
       = (''{packageName}.Foo'', [''{packageName}.Foo''])
   \<and> set (snd (getFieldType (Ellipsis (Ident ''Foo'')) Map.empty ''main''))
       \<noteq> set (snd (getFieldType (Ident ''Foo'') Map.empty ''main''))"
  by (simp add: isPrimitiveString_def globalPrimitives_def packageConstant_def)

section \<open>Rendering options\<close>

lemma setOption_unrecognized:
  "\<not> recognizedOption option \<Longrightarrow> setOption p option val = Ok (p, Some (InvalidRenderingOption option))"
  by (auto simp: setOption_def recognizedOption_def option_keys)

lemma setOption_recognized:
  assumes "recognizedOption option" and "expectedType option val"
  shows "setOption p option val =
     Ok (p\<lparr> Parser_RenderingOptions :=
              optionsFromMap [option \<mapsto> val] (Parser_RenderingOptions p) \<rparr>, None)"
proof -
  from assms(1) have "option \<in> {0, 1, 2, 3, 4, 5, 6, 7, 8, 9, 10}"
    unfolding recognizedOption_def by (simp, presburger)
  then show ?thesis using assms(2)
    by (auto simp: setOption_def expectedType_def recognizedOption_def option_keys setBool_def
        setString_def optionsFromMap_def boolOption_def stringOption_def
        split: goValue.splits)
qed


lemma SetRenderingOptions_unrecognized_aux:
  "list_all (\<lambda>(option, val). expectedType option val) ro
   \<Longrightarrow> \<not> list_all (\<lambda>(option, val). recognizedOption option) ro
   \<Longrightarrow> \<exists>p' option. SetRenderingOptions p ro = Ok (p', Some (InvalidRenderingOption option))
         \<and> \<not> recognizedOption option \<and> option \<in> fst ` set ro"
proof (induction ro arbitrary: p)
  case Nil
  then show ?case by simp
next
  case (Cons a ro)
  obtain option val where a: "a = (option, val)" by (cases a)
  show ?case
  proof (cases "recognizedOption option")
    case False
    then show ?thesis using a by (auto simp: setOption_unrecognized)
  next
    case True
    with Cons.prems a have "expectedType option val" by simp
    from setOption_recognized [OF True this]
    obtain q where q: "setOption p option val = Ok (q, None)" by blast
    from Cons.prems a True have "list_all (\<lambda>(option, val). expectedType option val) ro"
      and "\<not> list_all (\<lambda>(option, val). recognizedOption option) ro" by auto
    from Cons.IH [OF this, of q] show ?thesis using a q by auto
  qed
qed

lemma boolOption_step:
  "option \<notin> fst ` set ro \<Longrightarrow>
   boolOption (map_of ro) key (boolOption [option \<mapsto> val] key old)
     = boolOption (map_of ((option, val) # ro)) key old"
proof -
  assume "option \<notin> fst ` set ro"
  then have none: "map_of ro option = None" by (simp add: map_of_eq_None_iff)
  show ?thesis
    by (cases "key = option")
       (auto simp: boolOption_def none split: option.splits goValue.splits)
qed

lemma stringOption_step:
  "option \<notin> fst ` set ro \<Longrightarrow>
   stringOption (map_of ro) key (stringOption [option \<mapsto> val] key old)
     = stringOption (map_of ((option, val) # ro)) key old"
proof -
  assume "option \<notin> fst ` set ro"
  then have none: "map_of ro option = None" by (simp add: map_of_eq_None_iff)
  show ?thesis
    by (cases "key = option")
       (auto simp: stringOption_def none split: option.splits goValue.splits)
qed

lemma optionsFromMap_step:
  assumes "option \<notin> fst ` set ro"
  shows "optionsFromMap (map_of ro) (optionsFromMap [option \<mapsto> val] r)
         = optionsFromMap (map_of ((option, val) # ro)) r"
  unfolding optionsFromMap_def
  by (simp only: RenderingOptions.simps boolOption_step [OF assms] stringOption_step [OF assms])

lemma SetRenderingOptions_recognized_aux:
  "list_all (\<lambda>(option, val). expectedType option val) ro
   \<Longrightarrow> list_all (\<lambda>(option, val). recognizedOption option) ro
   \<Longrightarrow> distinct (map fst ro)
   \<Longrightarrow> SetRenderingOptions p ro =
         Ok (p\<lparr> Parser_RenderingOptions :=
                  optionsFromMap (map_of ro) (Parser_RenderingOptions p) \<rparr>, None)"
proof (induction ro arbitrary: p)
  case Nil
  show ?case by (simp add: optionsFromMap_def boolOption_def stringOption_def)
next
  case (Cons a ro)
  obtain option val where a: "a = (option, val)" by (cases a)
  from Cons.prems a have rec: "recognizedOption option" and ty: "expectedType option val"
    and notin: "option \<notin> fst ` set ro" by auto
  from Cons.prems have rest: "list_all (\<lambda>(option, val). expectedType option val) ro"
    "list_all (\<lambda>(option, val). recognizedOption option) ro" "distinct (map fst ro)" by auto
  have "SetRenderingOptions p (a # ro) =
          SetRenderingOptions (p\<lparr> Parser_RenderingOptions :=
              optionsFromMap [option \<mapsto> val] (Parser_RenderingOptions p) \<rparr>) ro"
    by (simp add: a setOption_recognized [OF rec ty])
  also have "\<dots> = Ok (p\<lparr> Parser_RenderingOptions :=
      optionsFromMap (map_of ro) (optionsFromMap [option \<mapsto> val] (Parser_RenderingOptions p)) \<rparr>, None)"
    by (simp add: Cons.IH [OF rest])
  also have "optionsFromMap (map_of ro) (optionsFromMap [option \<mapsto> val] (Parser_RenderingOptions p))
      = optionsFromMap (map_of (a # ro)) (Parser_RenderingOptions p)"
    unfolding a by (rule optionsFromMap_step [OF notin])
  finally show ?case .
qed


text \<open>
  Claim C9, as amended. Let the options map hold, under every key \<open>SetRenderingOptions\<close>
  recognizes, a value of the type that key expects (a \<open>bool\<close>, or a \<open>string\<close> for the title
  and the notes). If every key is recognized, the call returns no error and each option
  field is the value under its key, or the field as it was where the map has no such key.
  If some key is not recognized, the call returns the error for an unrecognized key of the
  map, in whatever order the map is visited.
\<close>

theorem SetRenderingOptions_checks_keys:
  assumes "list_all (\<lambda>(option, val). expectedType option val) ro"
    and "distinct (map fst ro)"
  shows "if list_all (\<lambda>(option, val). recognizedOption option) ro
         then SetRenderingOptions p ro =
                Ok (p\<lparr> Parser_RenderingOptions :=
                         optionsFromMap (map_of ro) (Parser_RenderingOptions p) \<rparr>, None)
         else (\<exists>p' option.
                 SetRenderingOptions p ro = Ok (p', Some (InvalidRenderingOption option))
                 \<and> \<not> recognizedOption option \<and> option \<in> fst ` set ro)"
  using assms SetRenderingOptions_recognized_aux [of ro p]
    SetRenderingOptions_unrecognized_aux [of ro p]
  by (cases "list_all (\<lambda>(option, val). recognizedOption option) ro") simp_all

theorem SetRenderingOptions_checks_keys_witness:
  "SetRenderingOptions (newClassParser ''/home/dev/app'')
       [(RenderTitle, StringValue ''Model''), (RenderFields, BoolValue False)]
     = Ok ((newClassParser ''/home/dev/app'')
             \<lparr> Parser_RenderingOptions :=
                 (Parser_RenderingOptions (newClassParser ''/home/dev/app''))
                   \<lparr> Options_Title := ''Model'', Options_Fields := False \<rparr> \<rparr>, None)
   \<and> SetRenderingOptions (newClassParser ''/home/dev/app'')
       [(RenderFields, BoolValue False), (42, BoolValue True)]
     = Ok ((newClassParser ''/home/dev/app'')
             \<lparr> Parser_RenderingOptions :=
                 (Parser_RenderingOptions (newClassParser ''/home/dev/app''))
                   \<lparr> Options_Fields := False \<rparr> \<rparr>, Some (InvalidRenderingOption 42))"
  using SetRenderingOptions_checks_keys
      [of "[(RenderTitle, StringValue ''Model''), (RenderFields, BoolValue False)]"
          "newClassParser ''/home/dev/app''"]
    SetRenderingOptions_checks_keys
      [of "[(RenderFields, BoolValue False), (42, BoolValue True)]"
          "newClassParser ''/home/dev/app''"]
  by (simp add: expectedType_def recognizedOption_def option_keys optionsFromMap_def
      boolOption_def stringOption_def newClassParser_def setOption_def setBool_def)

text \<open>
  Claim C9 as stated fails for a value of another type under a recognized key: the type
  assertion panics, and no error is returned.
\<close>

theorem SetRenderingOptions_wrong_type_panics:
  "SetRenderingOptions (newClassParser ''/home/dev/app'') [(RenderTitle, BoolValue True)] = Panic
   \<and> SetRenderingOptions (newClassParser ''/home/dev/app'') [(RenderFields, OtherValue)] = Panic"
  by (simp add: option_keys setOption_def setBool_def setString_def)

section \<open>Frame conditions of the model builder\<close>

lemma forEach_preserves:
  assumes "\<And>s x s'. body s x = Ok s' \<Longrightarrow> P s \<Longrightarrow> P s'"
  shows "forEach body xs s = Ok s' \<Longrightarrow> P s \<Longrightarrow> P s'"
proof (induction xs arbitrary: s)
  case Nil
  then show ?case by simp
next
  case (Cons x xs)
  then show ?case using assms by (auto split: result.splits)
qed

lemma options_store [simp]:
  "Parser_RenderingOptions (store p ptr st) = Parser_RenderingOptions p"
  by (simp add: store_def)

lemma options_modify [simp]:
  "Parser_RenderingOptions (modify p ptr f) = Parser_RenderingOptions p"
  by (simp add: modify_def split: option.splits)

lemma options_getOrCreateStruct:
  "getOrCreateStruct p name = Ok (p', ptr) \<Longrightarrow>
   Parser_RenderingOptions p' = Parser_RenderingOptions p"
  by (auto simp: getOrCreateStruct_def split: option.splits)

lemma options_handleFuncDecl:
  "handleFuncDecl p d = Ok p' \<Longrightarrow> Parser_RenderingOptions p' = Parser_RenderingOptions p"
  by (auto simp: handleFuncDecl_def Let_def dest: options_getOrCreateStruct
      split: decl.splits option.splits list.splits result.splits prod.splits)

lemma options_handleGenDecStructType:
  "handleGenDecStructType p typeName fs = Ok p' \<Longrightarrow>
   Parser_RenderingOptions p' = Parser_RenderingOptions p"
proof (induction fs arbitrary: p)
  case Nil
  then show ?case by simp
next
  case (Cons f fs)
  then show ?case
    by (auto dest!: options_getOrCreateStruct split: result.splits prod.splits)
qed

lemma options_handleGenDecInterfaceType:
  "handleGenDecInterfaceType p typeName fs = Ok p' \<Longrightarrow>
   Parser_RenderingOptions p' = Parser_RenderingOptions p"
proof (induction fs arbitrary: p)
  case Nil
  then show ?case by simp
next
  case (Cons f fs)
  show ?case
  proof (cases "snd f")
    case (FuncType params results)
    with Cons show ?thesis
      by (auto dest!: options_getOrCreateStruct split: result.splits prod.splits)
  next
    case (Ident t)
    with Cons show ?thesis
      by (auto dest!: options_getOrCreateStruct split: result.splits prod.splits)
  qed (use Cons in auto)
qed

lemma options_declareSpec:
  "declareSpec p typeName c = Ok (p', name, kind, alias) \<Longrightarrow>
   Parser_RenderingOptions p' = Parser_RenderingOptions p"
  by (cases c)
     (auto simp: declareSpec_def Let_def
       dest: options_handleGenDecStructType options_handleGenDecInterfaceType
       split: result.splits)

lemma options_registerSpec:
  "registerSpec p typeName kind alias = Ok p' \<Longrightarrow>
   Parser_RenderingOptions p' = Parser_RenderingOptions p"
  by (auto simp: registerSpec_def Let_def dest!: options_getOrCreateStruct
      split: result.splits prod.splits option.splits if_splits list.splits)

lemma options_processSpec:
  assumes "processSpec p sp = Ok p'"
  shows "Parser_RenderingOptions p' = Parser_RenderingOptions p"
proof (cases sp)
  case (TypeSpec typeName c)
  with assms obtain p1 name knd al where
    d: "declareSpec p typeName c = Ok (p1, name, knd, al)"
    and r: "registerSpec p1 name knd al = Ok p'"
    by (auto simp: processSpec_def split: result.splits prod.splits)
  from options_declareSpec [OF d] options_registerSpec [OF r] show ?thesis by simp
next
  case OtherSpec
  with assms show ?thesis by (simp add: processSpec_def)
qed

lemma options_parseFileDeclarations:
  assumes "parseFileDeclarations p node = Ok p'"
  shows "Parser_RenderingOptions p' = Parser_RenderingOptions p"
proof (cases node)
  case (GenDecl specs)
  with assms have run: "forEach processSpec specs p = Ok p'"
    by (simp add: parseFileDeclarations_def handleGenDecl_def)
  have step: "\<And>s x s'. processSpec s x = Ok s' \<Longrightarrow>
      Parser_RenderingOptions s = Parser_RenderingOptions p \<Longrightarrow>
      Parser_RenderingOptions s' = Parser_RenderingOptions p"
    using options_processSpec by simp
  from forEach_preserves [of processSpec
      "\<lambda>q. Parser_RenderingOptions q = Parser_RenderingOptions p", OF step run]
  show ?thesis by simp
next
  case (FuncDecl recv name params results)
  with assms show ?thesis
    by (simp add: parseFileDeclarations_def options_handleFuncDecl)
next
  case BadDecl
  with assms show ?thesis by (simp add: parseFileDeclarations_def)
qed

lemma options_parseImports [simp]:
  "Parser_RenderingOptions (parseImports p impt) = Parser_RenderingOptions p"
  by (simp add: parseImports_def Let_def split: option.splits)

lemma options_foldl_parseImports [simp]:
  "Parser_RenderingOptions (foldl parseImports p is) = Parser_RenderingOptions p"
  by (induction "is" arbitrary: p) auto

lemma options_parseFile:
  assumes "parseFile p f = Ok p'"
  shows "Parser_RenderingOptions p' = Parser_RenderingOptions p"
proof -
  from assms have run: "forEach parseFileDeclarations (File_Decls f)
      (foldl parseImports p (File_Imports f)) = Ok p'"
    by (simp add: parseFile_def)
  have step: "\<And>s x s'. parseFileDeclarations s x = Ok s' \<Longrightarrow>
      Parser_RenderingOptions s = Parser_RenderingOptions p \<Longrightarrow>
      Parser_RenderingOptions s' = Parser_RenderingOptions p"
    using options_parseFileDeclarations by simp
  from forEach_preserves [of parseFileDeclarations
      "\<lambda>q. Parser_RenderingOptions q = Parser_RenderingOptions p", OF step run]
  show ?thesis by simp
qed

lemma options_parsePackage:
  assumes "parsePackage p pack base = Ok p'"
  shows "Parser_RenderingOptions p' = Parser_RenderingOptions p"
proof -
  define body where "body = (\<lambda>q fileName.
              if \<not> HasSuffix fileName ''_test.go''
              then (case Package_Files pack fileName of
                      None \<Rightarrow> Panic
                    | Some f \<Rightarrow> parseFile q f)
              else Ok q)"
  from assms obtain p2 files where run: "forEach body files p2 = Ok p'"
    and p2: "Parser_RenderingOptions p2 = Parser_RenderingOptions p"
    by (auto simp: parsePackage_def Let_def body_def split: option.splits)
  have step: "\<And>s x s'. body s x = Ok s' \<Longrightarrow>
      Parser_RenderingOptions s = Parser_RenderingOptions p \<Longrightarrow>
      Parser_RenderingOptions s' = Parser_RenderingOptions p"
    by (auto simp: body_def dest: options_parseFile split: if_splits option.splits)
  from forEach_preserves [of body
      "\<lambda>q. Parser_RenderingOptions q = Parser_RenderingOptions p", OF step run] p2
  show ?thesis by simp
qed

lemma options_parseDirectory:
  assumes "parseDirectory ParseDir p directoryPath = Ok (p', err)"
  shows "Parser_RenderingOptions p' = Parser_RenderingOptions p"
proof (cases "ParseDir directoryPath")
  case (Inl e)
  with assms show ?thesis
    by (auto simp: parseDirectory_def Let_def split: option.splits)
next
  case (Inr packages)
  with assms obtain base where
    run: "forEach (\<lambda>q v. parsePackage q v base) packages p = Ok p'"
    by (auto simp: parseDirectory_def Let_def split: option.splits result.splits)
  have step: "\<And>s x s'. parsePackage s x base = Ok s' \<Longrightarrow>
      Parser_RenderingOptions s = Parser_RenderingOptions p \<Longrightarrow>
      Parser_RenderingOptions s' = Parser_RenderingOptions p"
    using options_parsePackage by simp
  from forEach_preserves [of "\<lambda>q v. parsePackage q v base"
      "\<lambda>q. Parser_RenderingOptions q = Parser_RenderingOptions p", OF step run]
  show ?thesis by simp
qed

lemma options_walkFn:
  "walkFn ParseDir ignored p path dirName err = Ok (p', r) \<Longrightarrow>
   Parser_RenderingOptions p' = Parser_RenderingOptions p"
  by (auto simp: walkFn_def dest: options_parseDirectory
      split: option.splits if_splits result.splits prod.splits)

lemma options_walk:
  "walk ParseDir ignored p node = Ok (p', err) \<Longrightarrow>
     Parser_RenderingOptions p' = Parser_RenderingOptions p"
  "walkEntries ParseDir ignored p entries = Ok (p', err) \<Longrightarrow>
     Parser_RenderingOptions p' = Parser_RenderingOptions p"
proof (induction ParseDir ignored p node and ParseDir ignored p entries
    arbitrary: p' err and p' err rule: walk_walkEntries.induct)
  case (1 ParseDir ignored p path err0)
  then show ?case
    by (auto dest: options_walkFn split: result.splits prod.splits walkResult.splits)
next
  case (2 ParseDir ignored p path name)
  then show ?case
    by (auto dest: options_walkFn split: result.splits prod.splits walkResult.splits)
next
  case (3 ParseDir ignored p path name err0)
  then show ?case
    by (auto dest!: options_walkFn split: result.splits prod.splits walkResult.splits)
next
  case (4 ParseDir ignored p path name entries)
  show ?case
  proof (cases "walkFn ParseDir ignored p path (Some name) None")
    case Panic
    with 4(2) show ?thesis by simp
  next
    case (Ok r)
    obtain q w where r: "r = (q, w)" by (cases r)
    from Ok r have q: "Parser_RenderingOptions q = Parser_RenderingOptions p"
      by (auto dest: options_walkFn)
    show ?thesis
    proof (cases w)
      case Continue
      with 4(2) Ok r have "walkEntries ParseDir ignored q entries = Ok (p', err)" by simp
      from 4(1) [OF Ok r [symmetric] Continue this] q show ?thesis by simp
    qed (use 4(2) Ok r q in auto)
  qed
next
  case (5 ParseDir ignored p)
  then show ?case by simp
next
  case (6 ParseDir ignored p entry entries)
  show ?case
  proof (cases "walk ParseDir ignored p entry")
    case Panic
    with 6(3) show ?thesis by simp
  next
    case (Ok r)
    obtain q e where r: "r = (q, e)" by (cases r)
    from 6(1) [of q e] Ok r have q: "Parser_RenderingOptions q = Parser_RenderingOptions p"
      by simp
    show ?thesis
    proof (cases e)
      case None
      with 6(3) Ok r have "walkEntries ParseDir ignored q entries = Ok (p', err)" by simp
      from 6(2) [OF Ok r [symmetric] None this] q show ?thesis by simp
    qed (use 6(3) Ok r q in auto)
  qed
qed


lemma options_parseDirectories:
  "parseDirectories ParseDir options p dirs = Ok (p', err) \<Longrightarrow>
   Parser_RenderingOptions p' = Parser_RenderingOptions p"
proof (induction dirs arbitrary: p)
  case Nil
  then show ?case by simp
next
  case (Cons d dirs)
  define r where "r = (if Diagram_Recursive options
            then walk ParseDir (set (Diagram_IgnoredDirectories options)) p
                   (Diagram_FileSystem options d)
            else parseDirectory ParseDir p d)"
  show ?case
  proof (cases r)
    case Panic
    with Cons.prems show ?thesis by (simp add: r_def)
  next
    case (Ok x)
    obtain q e where x: "x = (q, e)" by (cases x)
    from Ok x have q: "Parser_RenderingOptions q = Parser_RenderingOptions p"
      by (auto simp: r_def dest: options_walk(1) options_parseDirectory split: if_splits)
    show ?thesis
    proof (cases e)
      case None
      with Cons.prems Ok x have "parseDirectories ParseDir options q dirs = Ok (p', err)"
        by (simp add: r_def)
      from Cons.IH [OF this] q show ?thesis by simp
    next
      case (Some a)
      with Cons.prems Ok x q show ?thesis by (simp add: r_def)
    qed
  qed
qed

lemma options_addImplementation:
  "addImplementation st p i = Ok p' \<Longrightarrow> Parser_RenderingOptions p' = Parser_RenderingOptions p"
  by (auto simp: addImplementation_def split: option.splits if_splits)

lemma options_addImplementations:
  assumes "addImplementations p s = Ok p'"
  shows "Parser_RenderingOptions p' = Parser_RenderingOptions p"
proof (cases "getStruct p s")
  case None
  with assms show ?thesis by (simp add: addImplementations_def)
next
  case (Some st)
  with assms have run: "forEach (addImplementation st) (rangeKeys (AllInterfaces p)) p = Ok p'"
    by (simp add: addImplementations_def)
  have step: "\<And>s x s'. addImplementation st s x = Ok s' \<Longrightarrow>
      Parser_RenderingOptions s = Parser_RenderingOptions p \<Longrightarrow>
      Parser_RenderingOptions s' = Parser_RenderingOptions p"
    using options_addImplementation by simp
  from forEach_preserves [of "addImplementation st"
      "\<lambda>q. Parser_RenderingOptions q = Parser_RenderingOptions p", OF step run]
  show ?thesis by simp
qed

lemma options_resolveImplementations:
  assumes "resolveImplementations p = Ok p'"
  shows "Parser_RenderingOptions p' = Parser_RenderingOptions p"
proof -
  from assms have run: "forEach addImplementations (rangeKeys (AllStructs p)) p = Ok p'"
    by (simp add: resolveImplementations_def)
  have step: "\<And>s x s'. addImplementations s x = Ok s' \<Longrightarrow>
      Parser_RenderingOptions s = Parser_RenderingOptions p \<Longrightarrow>
      Parser_RenderingOptions s' = Parser_RenderingOptions p"
    using options_addImplementations by simp
  from forEach_preserves [of addImplementations
      "\<lambda>q. Parser_RenderingOptions q = Parser_RenderingOptions p", OF step run]
  show ?thesis by simp
qed

lemma options_NewClassDiagramWithOptions:
  assumes "NewClassDiagramWithOptions Getwd ParseDir options = Ok (Some p, err)"
    and "Diagram_RenderingOptions options = []"
  shows "\<exists>cwd. Getwd = Inr cwd
     \<and> Parser_RenderingOptions p = Parser_RenderingOptions (newClassParser cwd)"
proof (cases Getwd)
  case (Inl e)
  with assms show ?thesis by (simp add: NewClassDiagramWithOptions_def)
next
  case (Inr cwd)
  with assms obtain p1 p2 where
    d: "parseDirectories ParseDir options (newClassParser cwd) (Diagram_Directories options)
          = Ok (p1, None)"
    and r: "resolveImplementations p1 = Ok p2"
    and s: "SetRenderingOptions p2 [] = Ok (p, None)"
    by (auto simp: NewClassDiagramWithOptions_def
        split: result.splits prod.splits option.splits)
  from s have "p = p2" by simp
  with options_parseDirectories [OF d] options_resolveImplementations [OF r] Inr
  show ?thesis by simp
qed

text \<open>
  Claim C10. A successful call of \<open>NewClassDiagramWithOptions\<close> whose map of rendering
  options is empty returns a parser with the default options: aggregations and
  connection labels off; fields, methods, compositions, implementations and aliases on;
  an empty title and empty notes.
\<close>

theorem default_rendering_options:
  assumes "NewClassDiagramWithOptions Getwd ParseDir options = Ok (Some p, err)"
    and "Diagram_RenderingOptions options = []"
  shows "Options_Aggregations (Parser_RenderingOptions p) = False
     \<and> Options_Fields (Parser_RenderingOptions p) = True
     \<and> Options_Methods (Parser_RenderingOptions p) = True
     \<and> Options_Compositions (Parser_RenderingOptions p) = True
     \<and> Options_Implementations (Parser_RenderingOptions p) = True
     \<and> Options_Aliases (Parser_RenderingOptions p) = True
     \<and> Options_ConnectionLabels (Parser_RenderingOptions p) = False
     \<and> Options_Title (Parser_RenderingOptions p) = []
     \<and> Options_Notes (Parser_RenderingOptions p) = []"
  using options_NewClassDiagramWithOptions [OF assms]
  by (auto simp: newClassParser_def)

lemma exampleDiagram_built:
  "\<exists>p. exampleDiagram = Ok (Some p, None)"
  by (simp add: example_defs builder_defs string_defs Let_def)


theorem default_rendering_options_witness:
  "\<exists>p. exampleDiagram = Ok (Some p, None)
     \<and> Diagram_RenderingOptions exampleDiagramOptions = []
     \<and> Options_Aggregations (Parser_RenderingOptions p) = False
     \<and> Options_Fields (Parser_RenderingOptions p) = True
     \<and> Options_Methods (Parser_RenderingOptions p) = True
     \<and> Options_Compositions (Parser_RenderingOptions p) = True
     \<and> Options_Implementations (Parser_RenderingOptions p) = True
     \<and> Options_Aliases (Parser_RenderingOptions p) = True
     \<and> Options_ConnectionLabels (Parser_RenderingOptions p) = False
     \<and> Options_Title (Parser_RenderingOptions p) = []
     \<and> Options_Notes (Parser_RenderingOptions p) = []"
proof -
  obtain p where p: "exampleDiagram = Ok (Some p, None)"
    using exampleDiagram_built by blast
  have e: "Diagram_RenderingOptions exampleDiagramOptions = []"
    by (simp add: exampleDiagramOptions_def)
  from default_rendering_options [OF p [unfolded exampleDiagram_def] e] p e
  show ?thesis by blast
qed

section \<open>Kinds of classifiers\<close>

lemma deref_store:
  "deref (store p ptr st) q = (if q = ptr then Some st else deref p q)"
  by (cases q; cases ptr) (auto simp: deref_def store_def split: option.splits)

lemma deref_modify:
  "deref (modify p ptr f) q = (if q = ptr then map_option f (deref p ptr) else deref p q)"
  by (auto simp: modify_def deref_store split: option.splits)

lemma current_store [simp]: "CurrentPackageName (store p ptr st) = CurrentPackageName p"
  by (simp add: store_def)

lemma current_modify [simp]: "CurrentPackageName (modify p ptr f) = CurrentPackageName p"
  by (simp add: modify_def split: option.splits)

lemma kindsKept_refl [simp]: "kindsKept p p"
  by (simp add: kindsKept_def)

lemma kindsKept_trans: "kindsKept p q \<Longrightarrow> kindsKept q r \<Longrightarrow> kindsKept p r"
  unfolding kindsKept_def by (metis)

lemma kindsKept_modify:
  "(\<And>st. Struct_Type (f st) = Struct_Type st) \<Longrightarrow> kindsKept p (modify p ptr f)"
  by (auto simp: kindsKept_def deref_modify)

lemma getOrCreateStruct_cases:
  assumes "getOrCreateStruct p name = Ok (p', ptr)"
  shows "ptr = (CurrentPackageName p, name) \<and> Structure p (CurrentPackageName p) \<noteq> None
     \<and> ((p' = p \<and> deref p ptr \<noteq> None)
        \<or> (p' = store p ptr (newStruct (CurrentPackageName p)) \<and> deref p ptr = None))"
  using assms
  by (auto simp: getOrCreateStruct_def deref_def split: option.splits)

lemma getOrCreateStruct_result:
  assumes "getOrCreateStruct p name = Ok (p', ptr)"
  shows "ptr = (CurrentPackageName p, name)"
    and "CurrentPackageName p' = CurrentPackageName p"
    and "deref p' q = (if q = ptr \<and> deref p ptr = None
                       then Some (newStruct (CurrentPackageName p)) else deref p q)"
    and "deref p' ptr \<noteq> None"
  using getOrCreateStruct_cases [OF assms]
  by (auto simp: deref_store)

lemma kindsKept_getOrCreateStruct:
  "getOrCreateStruct p name = Ok (p', ptr) \<Longrightarrow> kindsKept p p'"
  by (auto simp: kindsKept_def getOrCreateStruct_result(3))

lemma kind_AddToComposition [simp]: "Struct_Type (AddToComposition st t) = Struct_Type st"
  by (simp add: AddToComposition_def)

lemma kind_AddMethod [simp]: "Struct_Type (AddMethod st m a) = Struct_Type st"
  by (simp add: AddMethod_def split: expr.splits)

lemma kind_foldl_aggregation:
  "Struct_Type (foldl (\<lambda>s t. if b then addToPrivateAggregation s (g t)
                               else AddToAggregation s (g t)) st ts) = Struct_Type st"
  by (induction ts arbitrary: st)
     (auto simp: addToPrivateAggregation_def AddToAggregation_def)

lemma kind_AddField [simp]: "Struct_Type (AddField st f a pn) = Struct_Type st"
  by (simp add: AddField_def Let_def kind_foldl_aggregation split: prod.splits list.splits)

lemma kindsKept_handleGenDecStructType:
  "handleGenDecStructType p typeName fs = Ok p' \<Longrightarrow>
   kindsKept p p' \<and> CurrentPackageName p' = CurrentPackageName p"
proof (induction fs arbitrary: p)
  case Nil
  then show ?case by simp
next
  case (Cons f fs)
  from Cons.prems obtain p1 ptr where
    g: "getOrCreateStruct p typeName = Ok (p1, ptr)"
    and rest: "handleGenDecStructType
        (modify p1 ptr (\<lambda>st. AddField st f (AllImports p1) (CurrentPackageName p1)))
        typeName fs = Ok p'"
    by (auto split: result.splits prod.splits)
  have "kindsKept p1 (modify p1 ptr (\<lambda>st. AddField st f (AllImports p1) (CurrentPackageName p1)))"
    by (rule kindsKept_modify) simp
  with kindsKept_getOrCreateStruct [OF g] Cons.IH [OF rest] getOrCreateStruct_result(2) [OF g]
  show ?case by (auto intro: kindsKept_trans)
qed

lemma kindsKept_handleGenDecInterfaceType:
  "handleGenDecInterfaceType p typeName fs = Ok p' \<Longrightarrow>
   kindsKept p p' \<and> CurrentPackageName p' = CurrentPackageName p"
proof (induction fs arbitrary: p)
  case Nil
  then show ?case by simp
next
  case (Cons f fs)
  show ?case
  proof (cases "snd f")
    case (FuncType params results)
    with Cons.prems obtain p1 ptr where
      g: "getOrCreateStruct p typeName = Ok (p1, ptr)"
      and rest: "handleGenDecInterfaceType
          (modify p1 ptr (\<lambda>st. AddMethod st f (AllImports p1))) typeName fs = Ok p'"
      by (auto split: result.splits prod.splits)
    have "kindsKept p1 (modify p1 ptr (\<lambda>st. AddMethod st f (AllImports p1)))"
      by (rule kindsKept_modify) simp
    with kindsKept_getOrCreateStruct [OF g] Cons.IH [OF rest] getOrCreateStruct_result(2) [OF g]
    show ?thesis by (auto intro: kindsKept_trans)
  next
    case (Ident t)
    define upd where "upd p1 = (\<lambda>st. AddToComposition st
                       (replacePackageConstant
                          (fst (getFieldType (Ident t) (AllImports p1) (Struct_PackageName st)))
                          (Struct_PackageName st)))" for p1 :: ClassParser
    from Ident Cons.prems obtain p1 ptr where
      g: "getOrCreateStruct p typeName = Ok (p1, ptr)"
      and rest: "handleGenDecInterfaceType (modify p1 ptr (upd p1)) typeName fs = Ok p'"
      by (auto simp: upd_def split: result.splits prod.splits)
    have "kindsKept p1 (modify p1 ptr (upd p1))"
      by (rule kindsKept_modify) (simp add: upd_def)
    with kindsKept_getOrCreateStruct [OF g] Cons.IH [OF rest] getOrCreateStruct_result(2) [OF g]
    show ?thesis by (auto intro: kindsKept_trans)
  qed (use Cons in auto)
qed

lemma declareSpec_result:
  assumes "declareSpec p typeName c = Ok (p1, name, knd, al)"
  shows "kindsKept p p1" and "CurrentPackageName p1 = CurrentPackageName p"
    and "name = declaredName p typeName c" and "knd = declaredKind c"
  using assms
  by (cases c;
      auto simp: declareSpec_def Let_def declaredName_def declaredKind_def
        dest: kindsKept_handleGenDecStructType kindsKept_handleGenDecInterfaceType
        split: result.splits)+


lemma deref_update_others [simp]:
  "deref (p\<lparr> AllStructs := a \<rparr>) = deref p"
  "deref (p\<lparr> AllInterfaces := b \<rparr>) = deref p"
  "deref (p\<lparr> AllAliases := c \<rparr>) = deref p"
  "deref (p\<lparr> AllRenamedStructs := d \<rparr>) = deref p"
  by (simp_all add: deref_def fun_eq_iff)

lemma registerSpec_deref:
  assumes "registerSpec p name knd al = Ok p'"
  shows "\<exists>p1 ptr. getOrCreateStruct p name = Ok (p1, ptr)
     \<and> deref p' = deref (modify p1 ptr (\<lambda>st. st\<lparr> Struct_Type := knd \<rparr>))"
  using assms
  by (auto simp: registerSpec_def Let_def
      split: result.splits prod.splits if_splits option.splits list.splits)

lemma registerSpec_kind:
  assumes "registerSpec p name knd al = Ok p'"
  shows "kindOf p' (CurrentPackageName p, name) = Some knd"
    and "q \<noteq> (CurrentPackageName p, name) \<Longrightarrow> deref p q = Some st \<Longrightarrow> deref p' q = Some st"
proof -
  from registerSpec_deref [OF assms] obtain p1 ptr where
    g: "getOrCreateStruct p name = Ok (p1, ptr)"
    and d: "deref p' = deref (modify p1 ptr (\<lambda>st. st\<lparr> Struct_Type := knd \<rparr>))"
    by blast
  note r = getOrCreateStruct_result [OF g]
  from r(4) obtain st0 where "deref p1 ptr = Some st0" by auto
  then show "kindOf p' (CurrentPackageName p, name) = Some knd"
    by (simp add: kindOf_def d deref_modify r(1) [symmetric])
  show "q \<noteq> (CurrentPackageName p, name) \<Longrightarrow> deref p q = Some st \<Longrightarrow> deref p' q = Some st"
    by (simp add: d deref_modify r(1) [symmetric] r(3))
qed

lemma processSpec_kind:
  assumes "processSpec p (TypeSpec typeName c) = Ok p'"
  shows "kindOf p' (CurrentPackageName p, declaredName p typeName c) = Some (declaredKind c)"
    and "q \<noteq> (CurrentPackageName p, declaredName p typeName c) \<Longrightarrow> deref p q = Some st
         \<Longrightarrow> kindOf p' q = Some (Struct_Type st)"
proof -
  from assms obtain p1 name knd al where
    d: "declareSpec p typeName c = Ok (p1, name, knd, al)"
    and r: "registerSpec p1 name knd al = Ok p'"
    by (auto simp: processSpec_def split: result.splits prod.splits)
  note ds = declareSpec_result [OF d]
  from registerSpec_kind(1) [OF r] ds
  show "kindOf p' (CurrentPackageName p, declaredName p typeName c) = Some (declaredKind c)"
    by simp
  assume q: "q \<noteq> (CurrentPackageName p, declaredName p typeName c)"
    and st: "deref p q = Some st"
  from ds(1) st obtain st1 where st1: "deref p1 q = Some st1"
    and k: "Struct_Type st1 = Struct_Type st"
    unfolding kindsKept_def by blast
  from registerSpec_kind(2) [OF r _ st1] q ds have "deref p' q = Some st1" by simp
  with k show "kindOf p' q = Some (Struct_Type st)" by (simp add: kindOf_def)
qed

lemma others_store [simp]:
  "AllStructs (store p ptr st) = AllStructs p"
  "AllInterfaces (store p ptr st) = AllInterfaces p"
  "AllImports (store p ptr st) = AllImports p"
  "AllAliases (store p ptr st) = AllAliases p"
  "AllRenamedStructs (store p ptr st) = AllRenamedStructs p"
  by (simp_all add: store_def)

lemma others_modify [simp]:
  "AllStructs (modify p ptr f) = AllStructs p"
  "AllInterfaces (modify p ptr f) = AllInterfaces p"
  "AllImports (modify p ptr f) = AllImports p"
  "AllAliases (modify p ptr f) = AllAliases p"
  "AllRenamedStructs (modify p ptr f) = AllRenamedStructs p"
  by (simp_all add: modify_def split: option.splits)

lemma handleFuncDecl_result:
  assumes "handleFuncDecl p (FuncDecl (Some ((recvNames, recvType) # rest)) declName params results)
             = Ok p'"
  shows "\<exists>p1 ptr. getOrCreateStruct p (receiverName p recvType) = Ok (p1, ptr)
     \<and> p' = modify
         ((modify p1 ptr
             (\<lambda>st. if Struct_Type st = [] then st\<lparr> Struct_Type := ''class'' \<rparr> else st))
            \<lparr> AllStructs := insert (CurrentPackageName p1 @ receiverName p recvType)
                               (AllStructs p1) \<rparr>)
         ptr (\<lambda>st. AddMethod st ([declName], FuncType params results) (AllImports p1))"
  using assms
  by (auto simp: handleFuncDecl_def Let_def receiverName_def split: result.splits prod.splits)

lemma handleFuncDecl_kind:
  assumes "handleFuncDecl p d = Ok p'" and "deref p q = Some st" and "Struct_Type st \<noteq> []"
  shows "kindOf p' q = Some (Struct_Type st)"
proof (cases "\<exists>recvNames recvType rest declName params results.
    d = FuncDecl (Some ((recvNames, recvType) # rest)) declName params results")
  case False
  with assms(1) have "p' = p"
    by (auto simp: handleFuncDecl_def split: decl.splits option.splits list.splits)
  with assms(2) show ?thesis by (simp add: kindOf_def)
next
  case True
  then obtain recvNames recvType rest declName params results where
    d: "d = FuncDecl (Some ((recvNames, recvType) # rest)) declName params results" by blast
  from handleFuncDecl_result [OF assms(1) [unfolded d]] obtain p1 ptr where
    g: "getOrCreateStruct p (receiverName p recvType) = Ok (p1, ptr)"
    and p': "p' = modify
         ((modify p1 ptr
             (\<lambda>st. if Struct_Type st = [] then st\<lparr> Struct_Type := ''class'' \<rparr> else st))
            \<lparr> AllStructs := insert (CurrentPackageName p1 @ receiverName p recvType)
                               (AllStructs p1) \<rparr>)
         ptr (\<lambda>st. AddMethod st ([declName], FuncType params results) (AllImports p1))"
    by blast
  note r = getOrCreateStruct_result [OF g]
  from r(3) [of q] assms(2) have q: "deref p1 q = Some st" by (auto split: if_splits)
  show ?thesis
  proof (cases "q = ptr")
    case True
    with q assms(3) show ?thesis by (simp add: kindOf_def p' deref_modify)
  next
    case False
    with q show ?thesis by (simp add: kindOf_def p' deref_modify)
  qed
qed

text \<open>
  Claim C5, as amended. \<open>getOrCreateStruct\<close> changes the kind of no classifier. A method
  declaration changes no kind that is not empty. A type declaration sets the kind of the
  classifier it declares to the kind it declares, whatever kind that classifier had
  before, and changes the kind of no other classifier.
\<close>

theorem kind_assignment:
  "(getOrCreateStruct p name = Ok (p', ptr) \<longrightarrow> deref p q = Some st
      \<longrightarrow> kindOf p' q = Some (Struct_Type st))
   \<and> (handleFuncDecl p d = Ok p' \<longrightarrow> deref p q = Some st \<longrightarrow> Struct_Type st \<noteq> []
      \<longrightarrow> kindOf p' q = Some (Struct_Type st))
   \<and> (processSpec p (TypeSpec typeName c) = Ok p'
      \<longrightarrow> kindOf p' (CurrentPackageName p, declaredName p typeName c) = Some (declaredKind c)
        \<and> (q \<noteq> (CurrentPackageName p, declaredName p typeName c) \<longrightarrow> deref p q = Some st
             \<longrightarrow> kindOf p' q = Some (Struct_Type st)))"
proof (intro conjI impI)
  assume "getOrCreateStruct p name = Ok (p', ptr)" and "deref p q = Some st"
  then show "kindOf p' q = Some (Struct_Type st)"
    by (auto simp: kindOf_def getOrCreateStruct_result(3))
next
  assume "handleFuncDecl p d = Ok p'" and "deref p q = Some st" and "Struct_Type st \<noteq> []"
  then show "kindOf p' q = Some (Struct_Type st)" by (rule handleFuncDecl_kind)
next
  assume "processSpec p (TypeSpec typeName c) = Ok p'"
  then show "kindOf p' (CurrentPackageName p, declaredName p typeName c) = Some (declaredKind c)"
    by (rule processSpec_kind(1))
next
  assume "processSpec p (TypeSpec typeName c) = Ok p'"
    and "q \<noteq> (CurrentPackageName p, declaredName p typeName c)" and "deref p q = Some st"
  then show "kindOf p' q = Some (Struct_Type st)" by (rule processSpec_kind(2))
qed

theorem kind_assignment_witness:
  "kindOf exampleConnParser (''app.net'', ''Conn'') = Some ''class''
   \<and> kindAfter (case getOrCreateStruct exampleConnParser ''Conn'' of
                  Ok (p', ptr) \<Rightarrow> Ok p' | Panic \<Rightarrow> Panic) (''app.net'', ''Conn'') = Some ''class''
   \<and> kindAfter (handleFuncDecl exampleConnParser
                  (FuncDecl (Some [([''c''], StarExpr (Ident ''Conn''))]) ''Close'' []
                     [([], Ident ''error'')]))
       (''app.net'', ''Conn'') = Some ''class''
   \<and> kindAfter (processSpec exampleConnParser (TypeSpec ''Addr'' (StructType [])))
       (''app.net'', ''Addr'') = Some ''class''
   \<and> kindAfter (processSpec exampleConnParser (TypeSpec ''Addr'' (StructType [])))
       (''app.net'', ''Conn'') = Some ''class''"
proof -
  let ?ptr = "(''app.net'', ''Conn'')"
  let ?st = "(newStruct ''app.net'')\<lparr> Struct_Type := ''class'' \<rparr>"
  let ?d = "FuncDecl (Some [([''c''], StarExpr (Ident ''Conn''))]) ''Close'' []
              [([], Ident ''error'')]"
  have st: "deref exampleConnParser ?ptr = Some ?st"
    by (simp add: kind_defs deref_def)
  have ne: "Struct_Type ?st \<noteq> []" by simp
  have cur: "CurrentPackageName exampleConnParser = ''app.net''"
    by (simp add: kind_defs)
  have nm: "declaredName exampleConnParser ''Addr'' (StructType []) = ''Addr''"
    by (simp add: kind_defs)
  have kd: "declaredKind (StructType []) = ''class''"
    by (simp add: kind_defs)
  obtain p1 ptr where g: "getOrCreateStruct exampleConnParser ''Conn'' = Ok (p1, ptr)"
    by (simp add: kind_defs builder_defs)
  obtain p2 where h: "handleFuncDecl exampleConnParser ?d = Ok p2"
    by (simp add: kind_defs builder_defs string_defs Let_def)
  obtain p3 where s: "processSpec exampleConnParser (TypeSpec ''Addr'' (StructType [])) = Ok p3"
    by (simp add: kind_defs builder_defs string_defs Let_def)
  from kind_assignment [of exampleConnParser "''Conn''" p1 ptr ?ptr ?st] g st
  have 1: "kindOf p1 ?ptr = Some ''class''" by simp
  from kind_assignment [of exampleConnParser _ p2 _ ?ptr ?st ?d] h st ne
  have 2: "kindOf p2 ?ptr = Some ''class''" by simp
  from kind_assignment [of exampleConnParser _ p3 _ ?ptr ?st _ "''Addr''" "StructType []"] s st
  have 3: "kindOf p3 (''app.net'', ''Addr'') = Some ''class''"
    and 4: "kindOf p3 ?ptr = Some ''class''"
    by (simp_all add: cur nm kd)
  from st 1 2 3 4 g h s show ?thesis by (simp add: kindAfter_def kindOf_def)
qed

text \<open>
  Claim C5 as stated fails: a package whose files declare \<^verbatim>\<open>type Conn struct{}\<close> and
  \<^verbatim>\<open>type Conn interface{}\<close> (one for each build target) leaves \<open>Conn\<close> with the kind
  \<open>class\<close> after the first declaration and with the kind \<open>interface\<close> after the second.
\<close>

theorem type_declaration_overwrites_kind:
  "processSpec exampleNetParser (TypeSpec ''Conn'' (StructType [])) = Ok exampleConnParser
   \<and> kindOf exampleConnParser (''app.net'', ''Conn'') = Some ''class''
   \<and> kindAfter (processSpec exampleConnParser (TypeSpec ''Conn'' (InterfaceType [])))
       (''app.net'', ''Conn'') = Some ''interface''"
  by (simp add: kind_defs builder_defs string_defs Let_def)


section \<open>Aliases of dotted names\<close>











section \<open>The renderer returns\<close>






lemma wellFormedStruct_afterRender [simp]:
  "wellFormedStruct (afterRender p st) = wellFormedStruct st"
  by (simp add: wellFormedStruct_def afterRender_def updatePrivateAggregations_def)










section \<open>The text of the renderer\<close>









lemma afterRender_idem [simp]: "afterRender p (afterRender p st) = afterRender p st"
  by (simp add: afterRender_def updatePrivateAggregations_def Un_assoc)






lemma sameStructures_refl [simp]: "sameStructures p m m"
  by (simp add: sameStructures_def)




















text \<open>
  The order in which a \<open>range\<close> loop visits a map does not show in what the renderer
  sorts: whatever the order in which the keys were collected, sorting them, or the lines
  made of them, gives what the model computes from the keys in ascending order.
\<close>

lemma sort_collected_keys:
  assumes "distinct xs" and "set xs = keys"
  shows "sort xs = rangeKeys keys"
proof -
  have "rangeKeys keys = sorted_list_of_set (set xs)"
    by (simp add: rangeKeys_def assms(2))
  also have "\<dots> = sort (remdups xs)" by (rule sorted_list_of_set_sort_remdups)
  also have "\<dots> = sort xs" by (simp add: distinct_remdups_id [OF assms(1)])
  finally show ?thesis by (rule sym)
qed

lemma sort_collected_lines:
  assumes "distinct xs" and "set xs = keys"
  shows "sort (map line xs) = sort (map line (rangeKeys keys))"
proof -
  have "mset (sort xs) = mset xs" by simp
  then have "mset (rangeKeys keys) = mset xs"
    by (simp add: sort_collected_keys [OF assms])
  then have "mset (sort (map line (rangeKeys keys))) = mset (map line xs)" by simp
  then show ?thesis by (rule properties_for_sort) simp
qed




section \<open>The renderer and the registry\<close>

text \<open>
  The model builder leaves the structure \<open>exampleServer\<close> for the file
  \<^verbatim>\<open>type Server struct { conn *Conn }\<close>: the type of the private field is among the
  private aggregations and the aggregations are empty.
\<close>

lemma exampleServer_built:
  "builtStruct exampleServerDiagram (''app.net'', ''Server'') = Some exampleServer
   \<and> map_option Parser_RenderingOptions (builtParser exampleServerDiagram)
       = Some (Parser_RenderingOptions exampleAggregateParser)"
  by (simp add: example_defs example_render_defs kind_defs builder_defs string_defs option_keys
      SetRenderingOptions.simps setOption_def setBool_def setString_def Let_def)

text \<open>
  Claim C2, that the renderer never changes the registry, at the registry of
  \<^verbatim>\<open>type Server struct { conn *Conn }\<close> with the option \<open>AggregatePrivateMembers\<close>. The
  aggregations of \<open>Server\<close> are empty before the call of \<open>Render\<close> and hold \<open>Conn\<close> after
  it: \<open>renderAggregations\<close> hands the map of the structure itself to
  \<open>updatePrivateAggregations\<close>, which writes the private aggregations into it. A later call
  whose options no longer ask for the private aggregations still writes the edge, which a
  call on the registry as built does not.
\<close>

theorem Render_writes_private_aggregations_into_registry:
  "map_option Struct_Aggregations (deref exampleAggregateParser (''app.net'', ''Server''))
     = Some {}
   \<and> map_option Struct_Aggregations
        (renderedStruct (Render exampleAggregateParser (\<lambda>n. ''#ff0000''))
           (''app.net'', ''Server''))
     = Some {''app.net.Conn''}
   \<and> renderedText
        (Render (withoutPrivateAggregations exampleAggregateParser) (\<lambda>n. ''#ff0000''))
     = Some (textOf
         [''@startuml'',
          ''skinparam nodesep 500'',
          ''skinparam ranksep 1500'',
          ''namespace app.net {'',
          ''    class Server << (S,Aquamarine) >> {'',
          ''    }'',
          ''}'',
          [],
          [],
          [],
          ''@enduml''])
   \<and> renderedText
        (RenderThen withoutPrivateAggregations exampleAggregateParser (\<lambda>n. ''#ff0000''))
     = Some (textOf
         [''@startuml'',
          ''skinparam nodesep 500'',
          ''skinparam ranksep 1500'',
          ''namespace app.net {'',
          ''    class Server << (S,Aquamarine) >> {'',
          ''    }'',
          ''}'',
          [],
          [],
          dquote @ ''app.net.Server'' @ dquote @ '' o-[#ff0000]- ''
            @ dquote @ ''app.net.Conn'' @ dquote,
          [],
          ''@enduml''])"
  by (simp add: example_render_defs kind_defs builder_defs render_defs string_defs Let_def)

section \<open>Aggregations of primitive types\<close>

text \<open>
  \<open>renderAggregationMap\<close> puts the package before every name that has no dot and only
  then asks for the package of the name; a name with a dot is no primitive type, so the
  test against the package of the built-in types holds for every entry and every entry is
  written.
\<close>

lemma renderAggregationList_writes_every_entry:
  assumes "Struct_PackageName st \<noteq> BuiltinPackageName"
  shows "renderAggregationList p targets st lsb name randColor =
     writeLines
       (map (\<lambda>a. dquote @ Struct_PackageName st @ ''.'' @ name @ dquote
                   @ (if Options_ConnectionLabels (Parser_RenderingOptions p)
                      then aggregates else [])
                   @ '' o-['' @ randColor @ '']- '' @ dquote
                   @ (if \<not> Contains a ''.'' then GetPackageName p a st @ ''.'' @ a else a)
                   @ dquote) targets)
       lsb"
proof (induction targets arbitrary: lsb)
  case Nil
  show ?case by (simp add: writeLines_def)
next
  case (Cons a targets)
  have dotted: "\<not> IsPrimitiveString (q @ ''.'' @ a)" for q
    by (auto simp: IsPrimitiveString_def isPrimitiveString_def globalPrimitives_def
        append_eq_Cons_conv)
  have "\<not> IsPrimitiveString a" if "Contains a ''.''"
    using that
    by (auto simp: IsPrimitiveString_def isPrimitiveString_def globalPrimitives_def
        Contains_def HasPrefix_def)
  then have "GetPackageName p (if \<not> Contains a ''.'' then GetPackageName p a st @ ''.'' @ a else a) st
      = Struct_PackageName st"
    using dotted by (simp add: GetPackageName_def)
  with assms show ?case
    by (simp add: Cons.IH Let_def writeLines_def)
qed


section \<open>The relationship pass\<close>

text \<open>
  Claim C6, that a record gains the edge to an interface iff it declares the methods of
  the interface, at the model built from the package \<open>main\<close> of the examples. \<open>MyInt\<close> is
  a record known by its method only and \<open>Point\<close> a record declared as a structure; each
  declares the method \<open>String() string\<close> that the interface \<open>Stringer\<close> asks for, and
  \<open>MyInt\<close> satisfies \<open>Stringer\<close>. \<open>Point\<close> gains the edge to \<open>Stringer\<close> and \<open>MyInt\<close> gains
  none: \<open>handleFuncDecl\<close> registers it as \<open>app.mainMyInt\<close>, with no dot before the name,
  and \<open>getStruct\<close> finds no structure of that name.
\<close>

theorem method_only_record_gains_no_edge:
  "builtStruct exampleDiagram (''app.main'', ''MyInt'') = Some exampleMyInt
   \<and> builtStruct exampleDiagram (''app.main'', ''Stringer'') = Some exampleStringer
   \<and> builtStruct exampleDiagram (''app.main'', ''Point'') = Some examplePoint
   \<and> ImplementsInterface exampleMyInt exampleStringer
   \<and> Struct_Extends exampleMyInt = {}
   \<and> Struct_Extends examplePoint = {''app.main.Stringer''}
   \<and> map_option AllStructs (builtParser exampleDiagram)
       = Some {''app.mainMyInt'', ''app.main.Point'', ''app.mainPoint''}
   \<and> map_option AllInterfaces (builtParser exampleDiagram) = Some {''app.main.Stringer''}
   \<and> map_option (\<lambda>p. getStruct p ''app.mainMyInt'') (builtParser exampleDiagram) = Some None"
  by (simp add: example_defs builder_defs string_defs Let_def insert_commute)

end
